theory Spec2Isabelle
  imports Complex_Main
begin

section \<open>Errors\<close>

text \<open>
  Every exception the generator and the injector can raise is a value.
  \<open>KeyError k\<close>: a dictionary lookup (\<open>network.nodes[k]\<close> or \<open>attrs[k]\<close>) of a key that is
  absent. \<open>UnboundLocalError v\<close>: a local variable read before any assignment.
  \<open>NetworkXError\<close>: raised by \<open>nx.ancestors\<close> for a source that is not a node of the graph.
  \<open>ZeroDivisionError\<close>: raised by \<open>pd.date_range\<close> for a sampling interval of zero minutes.
\<close>

datatype error =
    KeyError string
  | UnboundLocalError string
  | NetworkXError
  | ZeroDivisionError

section \<open>The network\<close>

text \<open>
  \<open>network_builder.py\<close> builds an \<open>nx.DiGraph\<close> whose nodes carry an attribute dictionary.
  The generator reads the attributes below; an attribute that a node does not have is
  \<open>None\<close>. \<open>node_type\<close> is the attribute \<open>'type'\<close>. The attributes \<open>coords\<close>, \<open>status\<close> and
  \<open>sensors\<close> and the edge attributes are never read by \<open>data_generator.py\<close> and are left out.
\<close>

type_synonym node_id = string

record node_attrs =
  node_type :: "string option"
  sensor_type :: "string option"
  attached_to :: "node_id option"
  base_demand :: "real option"
  demand_profile :: "string option"
  pump_rate :: "real option"
  current_level :: "real option"
  capacity :: "real option"

text \<open>
  The graph: its nodes in insertion order with their attributes, and its directed edges
  in insertion order.
\<close>

record network =
  node_list :: "(node_id \<times> node_attrs) list"
  edge_list :: "(node_id \<times> node_id) list"

text \<open>
  What \<open>nx.DiGraph\<close> guarantees of any graph it holds: node keys are unique, an edge is
  held once, and both ends of an edge are nodes.
\<close>

definition wf_network :: "network \<Rightarrow> bool" where
  "wf_network G \<longleftrightarrow>
     distinct (map fst (node_list G)) \<and> distinct (edge_list G) \<and>
     (\<forall>e \<in> set (edge_list G). fst e \<in> set (map fst (node_list G)) \<and>
                                snd e \<in> set (map fst (node_list G)))"

definition node_ids :: "network \<Rightarrow> node_id list" where
  "node_ids G = map fst (node_list G)"

text \<open>\<open>network.nodes[n]\<close>\<close>

definition node_lookup :: "network \<Rightarrow> node_id \<Rightarrow> error + node_attrs" where
  "node_lookup G n =
     (case map_of (node_list G) n of None \<Rightarrow> Inl (KeyError n) | Some a \<Rightarrow> Inr a)"

text \<open>\<open>attrs[key]\<close> for the attribute read by the selector \<open>f\<close>\<close>

definition attr :: "(node_attrs \<Rightarrow> 'a option) \<Rightarrow> string \<Rightarrow> node_attrs \<Rightarrow> error + 'a" where
  "attr f key a = (case f a of None \<Rightarrow> Inl (KeyError key) | Some v \<Rightarrow> Inr v)"

text \<open>\<open>network.successors(n)\<close>, for a node \<open>n\<close> of the graph\<close>

definition successors :: "network \<Rightarrow> node_id \<Rightarrow> node_id list" where
  "successors G n = map snd (filter (\<lambda>e. fst e = n) (edge_list G))"

text \<open>
  \<open>nx.ancestors(G, source)\<close>: the nodes with a directed path of at least one edge to
  \<open>source\<close>, \<open>source\<close> itself excluded; \<open>NetworkXError\<close> when \<open>source\<close> is not a node.
\<close>

definition ancestors :: "network \<Rightarrow> node_id \<Rightarrow> error + node_id list" where
  "ancestors G source =
     (if source \<notin> set (node_ids G) then Inl NetworkXError
      else Inr (remdups (filter (\<lambda>u. u \<noteq> source \<and> (u, source) \<in> (set (edge_list G))\<^sup>+)
                          (map fst (edge_list G)))))"

section \<open>Timestamps\<close>

text \<open>
  A \<open>pd.Timestamp\<close> without time zone is a count of nanoseconds since
  1970-01-01 00:00, and its accessors read the proleptic Gregorian calendar.
\<close>

type_synonym timestamp = int

definition ns_per_minute :: int where
  "ns_per_minute = 60000000000"

definition ns_per_hour :: int where
  "ns_per_hour = 3600000000000"

definition ns_per_day :: int where
  "ns_per_day = 86400000000000"

text \<open>\<open>timestamp.hour\<close>, in 0..23\<close>

definition hour :: "timestamp \<Rightarrow> int" where
  "hour t = (t div ns_per_hour) mod 24"

text \<open>\<open>timestamp.weekday()\<close>: Monday is 0, Sunday is 6; 1970-01-01 was a Thursday.\<close>

definition weekday :: "timestamp \<Rightarrow> int" where
  "weekday t = (t div ns_per_day + 3) mod 7"

definition is_leap_year :: "int \<Rightarrow> bool" where
  "is_leap_year y \<longleftrightarrow> y mod 4 = 0 \<and> (y mod 100 \<noteq> 0 \<or> y mod 400 = 0)"

text \<open>
  \<open>timestamp.dayofyear\<close>, in 1..366. The days are counted from 1 March of year 0 in
  400-year eras; \<open>doy\<close> is the day of the year that begins on 1 March, so that 1 January
  is its day 306.
\<close>

definition dayofyear :: "timestamp \<Rightarrow> int" where
  "dayofyear t =
     (let z = t div ns_per_day + 719468;
          era = z div 146097;
          doe = z mod 146097;
          yoe = (doe - doe div 1460 + doe div 36524 - doe div 146096) div 365;
          doy = doe - (365 * yoe + yoe div 4 - yoe div 100);
          y = yoe + era * 400
      in if 306 \<le> doy then doy - 305
         else doy + 60 + (if is_leap_year y then 1 else 0))"

text \<open>
  \<open>pd.date_range(start, end, freq=f'{minutes}min')\<close>: the timestamps
  \<open>start + i * stride\<close> from \<open>start\<close> up to and including \<open>end\<close> (down to \<open>end\<close> for a
  negative interval). A zero interval makes pandas divide by the zero stride.
\<close>

definition date_range :: "timestamp \<Rightarrow> timestamp \<Rightarrow> int \<Rightarrow> error + timestamp list" where
  "date_range start_time end_time sampling_interval_minutes =
     (let stride = sampling_interval_minutes * ns_per_minute in
      if stride = 0 then Inl ZeroDivisionError
      else Inr (map (\<lambda>i. start_time + int i * stride)
                    [0 ..< nat ((end_time - start_time) div stride + 1)]))"

section \<open>The pseudo-random source\<close>

text \<open>
  \<open>np.random\<close> is one process-wide generator. Its state is a position \<open>p\<close> in a stream
  \<open>g\<close> of raw samples; every call reads the sample at the position and moves one on.
  \<open>np.random.normal(mu, sigma)\<close> scales a standard normal sample,
  \<open>np.random.uniform(low, high)\<close> a sample of the unit interval \<open>[0, 1)\<close>. The values are
  reals, not floating-point numbers.
\<close>

type_synonym random_source = "nat \<Rightarrow> real"

definition normal :: "random_source \<Rightarrow> nat \<Rightarrow> real \<Rightarrow> real \<Rightarrow> real" where
  "normal g p mu sigma = mu + sigma * g p"

definition uniform :: "random_source \<Rightarrow> nat \<Rightarrow> real \<Rightarrow> real \<Rightarrow> real" where
  "uniform g p low high = low + (high - low) * g p"

section \<open>Tables\<close>

text \<open>
  A \<open>pd.DataFrame\<close> is the list of its rows, each with its index label.
  \<open>pd.DataFrame(data)\<close> labels the rows \<open>0, 1, 2, ...\<close>.
\<close>

type_synonym 'r dataframe = "(nat \<times> 'r) list"

definition DataFrame :: "'r list \<Rightarrow> 'r dataframe" where
  "DataFrame rows = zip [0 ..< length rows] rows"

record sensor_row =
  row_timestamp :: timestamp
  row_sensor_id :: node_id
  row_attached_to :: node_id
  row_sensor_type :: string
  row_value :: real

record consumption_row =
  crow_timestamp :: timestamp
  crow_zone_id :: node_id
  consumption_liters_per_sec :: real

text \<open>A \<open>for\<close> loop over a list whose body may raise: the first error ends the loop.\<close>

fun for_each :: "('a \<Rightarrow> 's \<Rightarrow> error + 's) \<Rightarrow> 'a list \<Rightarrow> 's \<Rightarrow> error + 's" where
  "for_each body [] st = Inr st"
| "for_each body (x # xs) st =
     (case body x st of Inl e \<Rightarrow> Inl e | Inr st' \<Rightarrow> for_each body xs st')"

section \<open>Sensor series generator\<close>

text \<open>
  The state of the two nested loops of \<open>generate_sensor_data\<close>: the position of the random
  source, the local variable \<open>base_pressure\<close> (unbound until its first assignment, and
  kept from one iteration to the next) and the list \<open>data\<close>. The other locals are
  assigned in every iteration before they are read.
\<close>

record gen_state =
  rng_pos :: nat
  base_pressure :: "real option"
  data :: "sensor_row list"

text \<open>The nodes with \<open>attrs.get('type') == 'Sensor'\<close>, in node order.\<close>

definition sensor_nodes :: "network \<Rightarrow> node_id list" where
  "sensor_nodes G = map fst (filter (\<lambda>(n, a). node_type a = Some ''Sensor'') (node_list G))"

text \<open>The loop over \<open>network.successors(attached_to_node)\<close> that adds up \<open>downstream_demand\<close>.\<close>

fun downstream_loop :: "network \<Rightarrow> node_id list \<Rightarrow> real \<Rightarrow> error + real" where
  "downstream_loop G [] downstream_demand = Inr downstream_demand"
| "downstream_loop G (neighbor # rest) downstream_demand =
     (case node_lookup G neighbor of Inl e \<Rightarrow> Inl e | Inr a \<Rightarrow>
      (case attr node_type ''type'' a of Inl e \<Rightarrow> Inl e | Inr ty \<Rightarrow>
         if ty = ''ConsumptionZone'' then
           (case attr base_demand ''base_demand'' a of Inl e \<Rightarrow> Inl e
            | Inr d \<Rightarrow> downstream_loop G rest (downstream_demand + d))
         else downstream_loop G rest downstream_demand))"

text \<open>\<open>base_flow\<close> of a Flow sensor (lines 29 to 39).\<close>

definition flow_base :: "network \<Rightarrow> node_id \<Rightarrow> error + real" where
  "flow_base G attached_to_node =
     (case node_lookup G attached_to_node of Inl e \<Rightarrow> Inl e | Inr a \<Rightarrow>
      (case attr node_type ''type'' a of Inl e \<Rightarrow> Inl e | Inr ty \<Rightarrow>
         if ty = ''ConsumptionZone'' then attr base_demand ''base_demand'' a
         else if ty = ''Junction'' then
           (case downstream_loop G (successors G attached_to_node) 0 of Inl e \<Rightarrow> Inl e
            | Inr downstream_demand \<Rightarrow>
                Inr (if downstream_demand > 0 then downstream_demand else 150))
         else Inr (case pump_rate a of None \<Rightarrow> 0 | Some r \<Rightarrow> r)))"

text \<open>\<open>pattern_factor\<close> (lines 41 to 51); it reads the random source at position \<open>p\<close>.\<close>

definition pattern_factor :: "random_source \<Rightarrow> nat \<Rightarrow> int \<Rightarrow> real" where
  "pattern_factor g p h =
     (if 0 \<le> h \<and> h < 6 then 0.6 + normal g p 0 0.05
      else if 6 \<le> h \<and> h < 10 then 1.2 + normal g p 0 0.1
      else if 10 \<le> h \<and> h < 17 then 0.9 + normal g p 0 0.08
      else if 17 \<le> h \<and> h < 22 then 1.3 + normal g p 0 0.1
      else 0.7 + normal g p 0 0.05)"

text \<open>
  The \<open>if\<close>/\<open>elif\<close> chain of the Pressure branch (lines 56 to 63): it has no \<open>else\<close>, so
  for any other node type \<open>base_pressure\<close> keeps what it held.
\<close>

definition pressure_base :: "network \<Rightarrow> node_id \<Rightarrow> real option \<Rightarrow> error + real option" where
  "pressure_base G attached_to_node bp =
     (case node_lookup G attached_to_node of Inl e \<Rightarrow> Inl e | Inr a \<Rightarrow>
      (case attr node_type ''type'' a of Inl e \<Rightarrow> Inl e | Inr ty \<Rightarrow>
         Inr (if ty = ''ConsumptionZone'' then Some 400000
              else if ty = ''Junction'' then Some 500000
              else if ty = ''PumpStation'' then Some 600000
              else if ty = ''Reservoir'' then Some 200000
              else bp)))"

text \<open>The Level formula for the node \<open>'R1'\<close> (lines 69 to 72).\<close>

definition level_value :: "network \<Rightarrow> random_source \<Rightarrow> nat \<Rightarrow> timestamp \<Rightarrow> error + real" where
  "level_value G g p t =
     (case node_lookup G ''R1'' of Inl e \<Rightarrow> Inl e | Inr a \<Rightarrow>
      (case attr current_level ''current_level'' a of Inl e \<Rightarrow> Inl e | Inr initial_level \<Rightarrow>
         let v = initial_level + sin (real_of_int (dayofyear t) / 365 * 2 * pi) * 50000
                 + normal g p 0 10000
         in (case attr capacity ''capacity'' a of Inl e \<Rightarrow> Inl e
             | Inr cap \<Rightarrow> Inr (max 0 (min cap v)))))"

text \<open>
  The value of one reading (lines 26 to 72), with the position of the random source and
  \<open>base_pressure\<close> after it.
\<close>

definition sensor_value ::
  "network \<Rightarrow> random_source \<Rightarrow> timestamp \<Rightarrow> string \<Rightarrow> node_id \<Rightarrow> nat \<Rightarrow> real option
     \<Rightarrow> error + (real \<times> nat \<times> real option)" where
  "sensor_value G g t sty attached_to_node p bp =
     (if sty = ''Flow'' then
        (case flow_base G attached_to_node of Inl e \<Rightarrow> Inl e
         | Inr base_flow \<Rightarrow>
             Inr (max 0 (base_flow * pattern_factor g p (hour t) + normal g (Suc p) 0 5),
                  Suc (Suc p), bp))
      else if sty = ''Pressure'' then
        (case pressure_base G attached_to_node bp of Inl e \<Rightarrow> Inl e
         | Inr None \<Rightarrow> Inl (UnboundLocalError ''base_pressure'')
         | Inr (Some b) \<Rightarrow> Inr (max 0 (b + normal g p 0 10000), Suc p, Some b))
      else if sty = ''Level'' then
        (if attached_to_node = ''R1'' then
           (case level_value G g p t of Inl e \<Rightarrow> Inl e | Inr v \<Rightarrow> Inr (v, Suc p, bp))
         else Inr (0, p, bp))
      else Inr (0, p, bp))"

text \<open>The body of the inner loop (lines 23 to 80).\<close>

definition sensor_step ::
  "network \<Rightarrow> random_source \<Rightarrow> timestamp \<Rightarrow> node_id \<Rightarrow> gen_state \<Rightarrow> error + gen_state" where
  "sensor_step G g t sensor_id st =
     (case node_lookup G sensor_id of Inl e \<Rightarrow> Inl e | Inr a \<Rightarrow>
      (case attr sensor_type ''sensor_type'' a of Inl e \<Rightarrow> Inl e | Inr sty \<Rightarrow>
       (case attr attached_to ''attached_to'' a of Inl e \<Rightarrow> Inl e | Inr attached_to_node \<Rightarrow>
        (case sensor_value G g t sty attached_to_node (rng_pos st) (base_pressure st) of
           Inl e \<Rightarrow> Inl e
         | Inr (v, p', bp') \<Rightarrow>
             Inr \<lparr>rng_pos = p', base_pressure = bp',
                  data = data st @ [\<lparr>row_timestamp = t, row_sensor_id = sensor_id,
                                     row_attached_to = attached_to_node,
                                     row_sensor_type = sty, row_value = v\<rparr>]\<rparr>))))"

text \<open>
  \<open>generate_sensor_data\<close>, started with the random source \<open>g\<close> at position \<open>p\<close>: the table
  and the position the source is left at, or the exception raised.
\<close>

definition generate_sensor_data ::
  "network \<Rightarrow> timestamp \<Rightarrow> timestamp \<Rightarrow> int \<Rightarrow> random_source \<Rightarrow> nat
     \<Rightarrow> error + (sensor_row dataframe \<times> nat)" where
  "generate_sensor_data G start_time end_time sampling_interval_minutes g p =
     (case date_range start_time end_time sampling_interval_minutes of Inl e \<Rightarrow> Inl e
      | Inr time_index \<Rightarrow>
         (case for_each (\<lambda>t. for_each (sensor_step G g t) (sensor_nodes G)) time_index
                 \<lparr>rng_pos = p, base_pressure = None, data = []\<rparr> of
            Inl e \<Rightarrow> Inl e
          | Inr st \<Rightarrow> Inr (DataFrame (data st), rng_pos st)))"

section \<open>Consumption series generator\<close>

text \<open>\<open>daily_factor\<close> by demand profile and hour (lines 99 to 112).\<close>

definition daily_factor :: "string \<Rightarrow> int \<Rightarrow> real" where
  "daily_factor profile h =
     (if profile = ''residential'' then
        (if 0 \<le> h \<and> h < 6 then 0.5
         else if 6 \<le> h \<and> h < 9 then 1.5
         else if 9 \<le> h \<and> h < 17 then 0.8
         else if 17 \<le> h \<and> h < 21 then 1.8
         else 0.7)
      else if profile = ''commercial'' then
        (if 0 \<le> h \<and> h < 8 then 0.2
         else if 8 \<le> h \<and> h < 18 then 1.5
         else 0.4)
      else if profile = ''industrial'' then
        (if (0 \<le> h \<and> h < 7) \<or> h \<ge> 22 then 0.7
         else 1.3)
      else 1.0)"

text \<open>The weekend adjustment of \<open>daily_factor\<close> (lines 114 to 118).\<close>

definition weekend_adjust :: "string \<Rightarrow> int \<Rightarrow> real \<Rightarrow> real" where
  "weekend_adjust profile wd factor =
     (if wd \<ge> 5 then
        (if profile = ''commercial'' \<or> profile = ''industrial'' then factor * 0.7
         else if profile = ''residential'' then factor * 1.1
         else factor)
      else factor)"

definition seasonal_factor :: "int \<Rightarrow> real" where
  "seasonal_factor day_of_year = 1 + 0.2 * sin (2 * pi * real_of_int (day_of_year - 170) / 365)"

text \<open>The nodes with \<open>attrs.get('type') == 'ConsumptionZone'\<close>, in node order.\<close>

definition consumption_zones :: "network \<Rightarrow> node_id list" where
  "consumption_zones G =
     map fst (filter (\<lambda>(n, a). node_type a = Some ''ConsumptionZone'') (node_list G))"

text \<open>
  The body of the inner loop (lines 95 to 129); the state is the position of the random
  source and the list \<open>data\<close>.
\<close>

definition zone_step ::
  "network \<Rightarrow> random_source \<Rightarrow> timestamp \<Rightarrow> node_id \<Rightarrow> nat \<times> consumption_row list
     \<Rightarrow> error + (nat \<times> consumption_row list)" where
  "zone_step G g t zone_id st =
     (case node_lookup G zone_id of Inl e \<Rightarrow> Inl e | Inr a \<Rightarrow>
      (case attr base_demand ''base_demand'' a of Inl e \<Rightarrow> Inl e | Inr bd \<Rightarrow>
       (case attr demand_profile ''demand_profile'' a of Inl e \<Rightarrow> Inl e | Inr profile \<Rightarrow>
          let factor = weekend_adjust profile (weekday t) (daily_factor profile (hour t));
              v = max 0 (bd * factor * seasonal_factor (dayofyear t) + normal g (fst st) 0 2)
          in Inr (Suc (fst st),
                  snd st @ [\<lparr>crow_timestamp = t, crow_zone_id = zone_id,
                             consumption_liters_per_sec = v\<rparr>]))))"

definition generate_consumption_data ::
  "network \<Rightarrow> timestamp \<Rightarrow> timestamp \<Rightarrow> int \<Rightarrow> random_source \<Rightarrow> nat
     \<Rightarrow> error + (consumption_row dataframe \<times> nat)" where
  "generate_consumption_data G start_time end_time sampling_interval_minutes g p =
     (case date_range start_time end_time sampling_interval_minutes of Inl e \<Rightarrow> Inl e
      | Inr time_index \<Rightarrow>
         (case for_each (\<lambda>t. for_each (zone_step G g t) (consumption_zones G)) time_index
                 (p, []) of
            Inl e \<Rightarrow> Inl e
          | Inr st \<Rightarrow> Inr (DataFrame (snd st), fst st)))"

section \<open>Leak injector\<close>

text \<open>
  \<open>sensor_df.loc[sensor_df.index == name, 'value'] = v\<close>: every row whose index label is
  \<open>name\<close> gets the value \<open>v\<close>.
\<close>

definition loc_set_value :: "sensor_row dataframe \<Rightarrow> nat \<Rightarrow> real \<Rightarrow> sensor_row dataframe" where
  "loc_set_value df name v =
     map (\<lambda>(label, r). if label = name then (label, r\<lparr>row_value := v\<rparr>) else (label, r)) df"

text \<open>
  \<open>row['attached_to'] in upstream_nodes or row['attached_to'] == leak_node_id\<close>
\<close>

definition near_leak :: "node_id list \<Rightarrow> node_id \<Rightarrow> sensor_row \<Rightarrow> bool" where
  "near_leak upstream_nodes leak_node_id row \<longleftrightarrow>
     row_attached_to row \<in> set upstream_nodes \<or> row_attached_to row = leak_node_id"

text \<open>
  The body of the loop over \<open>sensor_df.iterrows()\<close> (lines 145 to 150). \<open>iterrows\<close> hands
  out the rows as they were when the loop began: \<open>row\<close> is a copy, the table \<open>df\<close> is what
  the assignments have made of it so far.
\<close>

definition leak_step ::
  "node_id list \<Rightarrow> node_id \<Rightarrow> timestamp \<Rightarrow> timestamp \<Rightarrow> real \<Rightarrow> random_source
     \<Rightarrow> nat \<times> sensor_row \<Rightarrow> sensor_row dataframe \<times> nat \<Rightarrow> sensor_row dataframe \<times> nat" where
  "leak_step upstream_nodes leak_node_id start_time end_time severity_factor g labelled st =
     (let name = fst labelled; row = snd labelled in
      if start_time \<le> row_timestamp row \<and> row_timestamp row \<le> end_time then
        let st1 =
              (if row_sensor_type row = ''Flow'' \<and> near_leak upstream_nodes leak_node_id row
               then (loc_set_value (fst st) name
                       (row_value row * (1 + severity_factor * uniform g (snd st) 0.8 1.2)),
                     Suc (snd st))
               else st)
        in (if row_sensor_type row = ''Pressure'' \<and> near_leak upstream_nodes leak_node_id row
            then (loc_set_value (fst st1) name
                    (row_value row * (1 - severity_factor * uniform g (snd st1) 0.8 1.2)),
                  Suc (snd st1))
            else st1)
      else st)"

text \<open>
  \<open>inject_leak_event\<close>, started with the random source \<open>g\<close> at position \<open>p\<close>: the table and
  the position the source is left at, or the exception raised.
\<close>

definition inject_leak_event ::
  "sensor_row dataframe \<Rightarrow> network \<Rightarrow> node_id \<Rightarrow> timestamp \<Rightarrow> timestamp \<Rightarrow> real
     \<Rightarrow> random_source \<Rightarrow> nat \<Rightarrow> error + (sensor_row dataframe \<times> nat)" where
  "inject_leak_event sensor_df G leak_node_id start_time end_time severity_factor g p =
     (case ancestors G leak_node_id of Inl e \<Rightarrow> Inl e
      | Inr upstream_nodes \<Rightarrow>
          Inr (fold (leak_step upstream_nodes leak_node_id start_time end_time severity_factor g)
                    sensor_df (sensor_df, p)))"

section \<open>Vocabulary of the claims\<close>

text \<open>
  The immediate successors of a node that are ConsumptionZone nodes, and the
  \<open>base_demand\<close> of a node (0 for a node without one; the generator raises \<open>KeyError\<close>
  there and returns no table).
\<close>

definition is_zone :: "network \<Rightarrow> node_id \<Rightarrow> bool" where
  "is_zone G m \<longleftrightarrow>
     (case map_of (node_list G) m of None \<Rightarrow> False
      | Some a \<Rightarrow> node_type a = Some ''ConsumptionZone'')"

definition zone_successors :: "network \<Rightarrow> node_id \<Rightarrow> node_id list" where
  "zone_successors G n = filter (is_zone G) (successors G n)"

definition demand_of :: "network \<Rightarrow> node_id \<Rightarrow> real" where
  "demand_of G m =
     (case map_of (node_list G) m of None \<Rightarrow> 0
      | Some a \<Rightarrow> (case base_demand a of None \<Rightarrow> 0 | Some d \<Rightarrow> d))"

text \<open>
  The capacity the Level formula clips to: the attribute \<open>capacity\<close> of the node \<open>'R1'\<close>
  (0 when there is no such node or attribute; no Level value is then computed from it).
\<close>

definition reservoir_capacity :: "network \<Rightarrow> real" where
  "reservoir_capacity G =
     (case map_of (node_list G) ''R1'' of None \<Rightarrow> 0
      | Some a \<Rightarrow> (case capacity a of None \<Rightarrow> 0 | Some c \<Rightarrow> c))"

text \<open>
  The consumption rule in the words of the specification (section 4.2): a table of
  hour buckets \<open>(from, to, factor)\<close> per demand profile, the hour \<open>h\<close> falling into the
  bucket with \<open>from \<le> h < to\<close>; a weekend multiplier on Saturday (5) and Sunday (6); a
  seasonal sinusoid.
\<close>

definition spec_buckets :: "string \<Rightarrow> (int \<times> int \<times> real) list" where
  "spec_buckets profile =
     (if profile = ''residential'' then
        [(0, 6, 0.5), (6, 9, 1.5), (9, 17, 0.8), (17, 21, 1.8), (21, 24, 0.7)]
      else if profile = ''commercial'' then
        [(0, 8, 0.2), (8, 18, 1.5), (18, 24, 0.4)]
      else if profile = ''industrial'' then
        [(0, 7, 0.7), (7, 22, 1.3), (22, 24, 0.7)]
      else [])"

definition spec_bucket_factor :: "(int \<times> int \<times> real) list \<Rightarrow> int \<Rightarrow> real option" where
  "spec_bucket_factor buckets h =
     map_option (\<lambda>b. snd (snd b)) (find (\<lambda>b. fst b \<le> h \<and> h < fst (snd b)) buckets)"

definition spec_weekend_multiplier :: "string \<Rightarrow> int \<Rightarrow> real" where
  "spec_weekend_multiplier profile wd =
     (if wd = 5 \<or> wd = 6 then
        (if profile = ''commercial'' \<or> profile = ''industrial'' then 0.7
         else if profile = ''residential'' then 1.1
         else 1)
      else 1)"

definition spec_seasonal :: "int \<Rightarrow> real" where
  "spec_seasonal day_of_year = 1 + 0.2 * sin (2 * pi * (real_of_int day_of_year - 170) / 365)"

text \<open>
  The rows a leak at \<open>leak_node_id\<close> in the window \<open>[start_time, end_time]\<close> is meant to
  change: timestamp in the window (both ends included), sensor type Flow or Pressure,
  attached to the leak node or to a node with a directed path to it.
\<close>

definition leak_affected ::
  "network \<Rightarrow> node_id \<Rightarrow> timestamp \<Rightarrow> timestamp \<Rightarrow> sensor_row \<Rightarrow> bool" where
  "leak_affected G leak_node_id start_time end_time r \<longleftrightarrow>
     start_time \<le> row_timestamp r \<and> row_timestamp r \<le> end_time \<and>
     (row_sensor_type r = ''Flow'' \<or> row_sensor_type r = ''Pressure'') \<and>
     (row_attached_to r = leak_node_id \<or>
      (row_attached_to r, leak_node_id) \<in> (set (edge_list G))\<^sup>+)"

text \<open>
  A row with its value scaled for the draw \<open>u\<close>: a Flow value by \<open>1 + severity * u\<close>, a
  Pressure value by \<open>1 - severity * u\<close>.
\<close>

definition leak_scaled :: "real \<Rightarrow> real \<Rightarrow> sensor_row \<Rightarrow> sensor_row" where
  "leak_scaled severity_factor u r =
     r\<lparr>row_value := row_value r * (if row_sensor_type r = ''Flow''
                                    then 1 + severity_factor * u
                                    else 1 - severity_factor * u)\<rparr>"

text \<open>
  The table the claim describes: every affected row scaled with a draw of its own, the
  draws taken in row order from position \<open>p\<close> on; every other row as it was.
\<close>

fun leak_table ::
  "(sensor_row \<Rightarrow> bool) \<Rightarrow> real \<Rightarrow> random_source \<Rightarrow> nat \<Rightarrow> sensor_row dataframe
     \<Rightarrow> sensor_row dataframe" where
  "leak_table affected severity_factor g p [] = []"
| "leak_table affected severity_factor g p ((label, r) # rest) =
     (if affected r
      then (label, leak_scaled severity_factor (uniform g p 0.8 1.2) r)
             # leak_table affected severity_factor g (Suc p) rest
      else (label, r) # leak_table affected severity_factor g p rest)"

section \<open>Example networks and tables\<close>

text \<open>A node added with no attributes.\<close>

definition no_attrs :: node_attrs where
  "no_attrs = \<lparr>node_type = None, sensor_type = None, attached_to = None, base_demand = None,
               demand_profile = None, pump_rate = None, current_level = None,
               capacity = None\<rparr>"

text \<open>\<open>G.add_node(n, type='Sensor', sensor_type=sty, attached_to=target)\<close>\<close>

definition sensor_node :: "string \<Rightarrow> node_id \<Rightarrow> node_attrs" where
  "sensor_node sty target =
     no_attrs\<lparr>node_type := Some ''Sensor'', sensor_type := Some sty,
              attached_to := Some target\<rparr>"

text \<open>\<open>G.add_node(n, type='ConsumptionZone', demand_profile=profile, base_demand=d)\<close>\<close>

definition zone_node :: "string \<Rightarrow> real \<Rightarrow> node_attrs" where
  "zone_node profile d =
     no_attrs\<lparr>node_type := Some ''ConsumptionZone'', demand_profile := Some profile,
              base_demand := Some d\<rparr>"

text \<open>\<open>G.add_node(n, type=ty)\<close>\<close>

definition plain_node :: "string \<Rightarrow> node_attrs" where
  "plain_node ty = no_attrs\<lparr>node_type := Some ty\<rparr>"

text \<open>
  A small network in the shape of \<open>build_simple_water_network\<close>: a reservoir feeding a
  junction that feeds a residential zone, with a flow and a pressure sensor on the
  junction and a level sensor on the reservoir.
\<close>

definition example_network :: network where
  "example_network =
     \<lparr>node_list =
        [(''R1'', no_attrs\<lparr>node_type := Some ''Reservoir'', capacity := Some 1000000,
                          current_level := Some 900000\<rparr>),
         (''J1'', plain_node ''Junction''),
         (''Z1'', zone_node ''residential'' 100),
         (''S_F_J1'', sensor_node ''Flow'' ''J1''),
         (''S_P_J1'', sensor_node ''Pressure'' ''J1''),
         (''S_L_R1'', sensor_node ''Level'' ''R1'')],
      edge_list = [(''R1'', ''J1''), (''J1'', ''Z1'')]\<rparr>"

text \<open>1970-12-31 00:00, a Thursday and day 365 of its year, and five minutes later.\<close>

definition example_start :: timestamp where
  "example_start = 364 * ns_per_day"

definition example_end :: timestamp where
  "example_end = example_start + 5 * ns_per_minute"

text \<open>
  The tables the two generators return for \<open>example_network\<close> on the grid of the single
  timestamp \<open>example_start\<close> when every raw sample is zero.
\<close>

definition example_table :: "sensor_row dataframe" where
  "example_table =
     [(0, \<lparr>row_timestamp = example_start, row_sensor_id = ''S_F_J1'',
           row_attached_to = ''J1'', row_sensor_type = ''Flow'', row_value = 60\<rparr>),
      (1, \<lparr>row_timestamp = example_start, row_sensor_id = ''S_P_J1'',
           row_attached_to = ''J1'', row_sensor_type = ''Pressure'', row_value = 500000\<rparr>),
      (2, \<lparr>row_timestamp = example_start, row_sensor_id = ''S_L_R1'',
           row_attached_to = ''R1'', row_sensor_type = ''Level'', row_value = 900000\<rparr>)]"

definition example_consumption :: "consumption_row dataframe" where
  "example_consumption =
     [(0, \<lparr>crow_timestamp = example_start, crow_zone_id = ''Z1'',
           consumption_liters_per_sec = max 0 (50 * seasonal_factor 365)\<rparr>)]"

text \<open>A second reservoir \<open>'R2'\<close> with a level sensor of its own, and no node \<open>'R1'\<close>.\<close>

definition second_reservoir_network :: network where
  "second_reservoir_network =
     \<lparr>node_list =
        [(''R2'', no_attrs\<lparr>node_type := Some ''Reservoir'', capacity := Some 500000,
                          current_level := Some 400000\<rparr>),
         (''S_L_R2'', sensor_node ''Level'' ''R2'')],
      edge_list = []\<rparr>"

text \<open>
  A valve with a pressure sensor; and the same behind a junction that has a pressure
  sensor of its own, read first.
\<close>

definition valve_network :: network where
  "valve_network =
     \<lparr>node_list =
        [(''V1'', plain_node ''Valve''),
         (''S_P_V1'', sensor_node ''Pressure'' ''V1'')],
      edge_list = []\<rparr>"

definition junction_valve_network :: network where
  "junction_valve_network =
     \<lparr>node_list =
        [(''J1'', plain_node ''Junction''),
         (''V1'', plain_node ''Valve''),
         (''S_P_J1'', sensor_node ''Pressure'' ''J1''),
         (''S_P_V1'', sensor_node ''Pressure'' ''V1'')],
      edge_list = [(''J1'', ''V1'')]\<rparr>"

text \<open>
  A junction with a flow sensor whose only successor zone has \<open>base_demand=0\<close>; and a pump
  station with a flow sensor.
\<close>

definition idle_zone_network :: network where
  "idle_zone_network =
     \<lparr>node_list =
        [(''J1'', plain_node ''Junction''),
         (''Z1'', zone_node ''residential'' 0),
         (''S_F_J1'', sensor_node ''Flow'' ''J1'')],
      edge_list = [(''J1'', ''Z1'')]\<rparr>"

definition pump_network :: network where
  "pump_network =
     \<lparr>node_list =
        [(''P1'', no_attrs\<lparr>node_type := Some ''PumpStation'', pump_rate := Some 500\<rparr>),
         (''S_F_P1'', sensor_node ''Flow'' ''P1'')],
      edge_list = []\<rparr>"

section \<open>Loops\<close>

lemma for_each_append:
  "for_each body (xs @ ys) st =
     (case for_each body xs st of Inl e \<Rightarrow> Inl e | Inr st' \<Rightarrow> for_each body ys st')"
  by (induction xs arbitrary: st) (auto split: sum.splits)

lemma for_each_map: "for_each body (map f xs) st = for_each (\<lambda>x. body (f x)) xs st"
  by (induction xs arbitrary: st) (auto split: sum.splits)

lemma for_each_product:
  "for_each (\<lambda>t. for_each (body t) xs) ts st =
   for_each (\<lambda>tx. body (fst tx) (snd tx)) (List.product ts xs) st"
proof (induction ts arbitrary: st)
  case Nil
  show ?case by simp
next
  case (Cons t ts)
  show ?case
    by (simp add: for_each_append for_each_map Cons.IH split: sum.splits)
qed

lemma for_each_rows:
  assumes step: "\<And>x st st'. x \<in> set xs \<Longrightarrow> I st \<Longrightarrow> body x st = Inr st' \<Longrightarrow>
                   I st' \<and> (\<exists>r. proj st' = proj st @ [r] \<and> Q (length (proj st)) x r)"
      and inv: "I st"
      and run: "for_each body xs st = Inr st'"
  shows "I st' \<and> (\<exists>rs. proj st' = proj st @ rs \<and> length rs = length xs \<and>
                   (\<forall>j < length xs. Q (length (proj st) + j) (xs ! j) (rs ! j)))"
  using assms
proof (induction xs arbitrary: st)
  case Nil
  then show ?case by simp
next
  case (Cons x xs)
  from Cons.prems(3) obtain st1 where b: "body x st = Inr st1"
    and rest: "for_each body xs st1 = Inr st'"
    by (auto split: sum.splits)
  from Cons.prems(1)[OF _ Cons.prems(2) b] obtain r where
    i1: "I st1" and p1: "proj st1 = proj st @ [r]" and q1: "Q (length (proj st)) x r"
    by auto
  have "I st' \<and> (\<exists>rs. proj st' = proj st1 @ rs \<and> length rs = length xs \<and>
                   (\<forall>j < length xs. Q (length (proj st1) + j) (xs ! j) (rs ! j)))"
    by (rule Cons.IH[OF _ i1 rest]) (use Cons.prems(1) in auto)
  then obtain rs where i': "I st'" and p': "proj st' = proj st1 @ rs"
    and l: "length rs = length xs"
    and q: "\<forall>j < length xs. Q (length (proj st1) + j) (xs ! j) (rs ! j)"
    by blast
  have "\<forall>j < length (x # xs). Q (length (proj st) + j) ((x # xs) ! j) ((r # rs) ! j)"
  proof (intro allI impI)
    fix j assume "j < length (x # xs)"
    show "Q (length (proj st) + j) ((x # xs) ! j) ((r # rs) ! j)"
    proof (cases j)
      case 0
      then show ?thesis using q1 by simp
    next
      case (Suc j')
      then have "j' < length xs" using \<open>j < length (x # xs)\<close> by simp
      with q have "Q (length (proj st1) + j') (xs ! j') (rs ! j')" by blast
      then show ?thesis using Suc p1 by simp
    qed
  qed
  moreover have "proj st' = proj st @ (r # rs)" using p' p1 by simp
  moreover have "length (r # rs) = length (x # xs)" using l by simp
  ultimately show ?case using i' by blast
qed

lemma sensor_step_row:
  assumes "sensor_step G g t sid st = Inr st'"
  shows "\<exists>a sty tgt v. node_lookup G sid = Inr a \<and> sensor_type a = Some sty \<and>
           attached_to a = Some tgt \<and>
           sensor_value G g t sty tgt (rng_pos st) (base_pressure st)
             = Inr (v, rng_pos st', base_pressure st') \<and>
           data st' = data st @ [\<lparr>row_timestamp = t, row_sensor_id = sid,
                                   row_attached_to = tgt, row_sensor_type = sty,
                                   row_value = v\<rparr>]"
  using assms
  by (auto simp: sensor_step_def attr_def split: sum.splits option.splits prod.splits)

section \<open>Well-formed graphs\<close>

lemma successors_distinct:
  assumes "wf_network G"
  shows "distinct (successors G n)"
proof -
  from assms have d: "distinct (filter (\<lambda>e. fst e = n) (edge_list G))"
    by (simp add: wf_network_def)
  have "inj_on snd (set (filter (\<lambda>e. fst e = n) (edge_list G)))"
    by (auto simp: inj_on_def prod_eq_iff)
  with d show ?thesis
    by (simp add: successors_def distinct_map)
qed

lemma zone_demand_sum:
  assumes "wf_network G"
  shows "sum_list (map (demand_of G) (zone_successors G n))
           = (\<Sum>m \<in> set (zone_successors G n). demand_of G m)"
proof -
  from successors_distinct[OF assms] have "distinct (zone_successors G n)"
    by (simp add: zone_successors_def)
  then show ?thesis by (rule sum_list_distinct_conv_sum_set)
qed

section \<open>The rows of the generated tables\<close>

lemma length_DataFrame [simp]: "length (DataFrame rows) = length rows"
  by (simp add: DataFrame_def)

lemma map_snd_DataFrame [simp]: "map snd (DataFrame rows) = rows"
  by (simp add: DataFrame_def)

lemma map_fst_DataFrame [simp]: "map fst (DataFrame rows) = [0 ..< length rows]"
  by (simp add: DataFrame_def)

lemma nth_DataFrame [simp]: "j < length rows \<Longrightarrow> DataFrame rows ! j = (j, rows ! j)"
  by (simp add: DataFrame_def)

lemma DataFrame_Nil [simp]: "DataFrame [] = []"
  by (simp add: DataFrame_def)

lemma date_range_same:
  "0 < k \<Longrightarrow> date_range s s k = Inr [s]"
  by (simp add: date_range_def ns_per_minute_def)

lemma date_range_empty:
  assumes "0 < k" "e < s"
  shows "date_range s e k = Inr []"
proof -
  have "(e - s) div (k * 60000000000) < 0"
    using assms by (simp add: div_neg_pos_less0)
  then show ?thesis
    using assms by (simp add: date_range_def ns_per_minute_def)
qed

lemma sensor_rows:
  assumes run: "generate_sensor_data G s e k g p = Inr (df, p')"
  shows "\<exists>grid rows. date_range s e k = Inr grid \<and> df = DataFrame rows \<and>
           length rows = length (List.product grid (sensor_nodes G)) \<and>
           (\<forall>j < length rows.
              \<exists>a sty tgt q bp q' bp'.
                node_lookup G (snd (List.product grid (sensor_nodes G) ! j)) = Inr a \<and>
                sensor_type a = Some sty \<and> attached_to a = Some tgt \<and>
                sensor_value G g (fst (List.product grid (sensor_nodes G) ! j)) sty tgt q bp
                  = Inr (row_value (rows ! j), q', bp') \<and>
                rows ! j = \<lparr>row_timestamp = fst (List.product grid (sensor_nodes G) ! j),
                            row_sensor_id = snd (List.product grid (sensor_nodes G) ! j),
                            row_attached_to = tgt, row_sensor_type = sty,
                            row_value = row_value (rows ! j)\<rparr>)"
proof -
  from run obtain grid st where
    grid: "date_range s e k = Inr grid" and
    loop: "for_each (\<lambda>t. for_each (sensor_step G g t) (sensor_nodes G)) grid
             \<lparr>rng_pos = p, base_pressure = None, data = []\<rparr> = Inr st" and
    df: "df = DataFrame (data st)"
    by (auto simp: generate_sensor_data_def split: sum.splits)
  let ?Q = "\<lambda>(j::nat) tx r. \<exists>a sty tgt q bp q' bp'.
                node_lookup G (snd tx) = Inr a \<and>
                sensor_type a = Some sty \<and> attached_to a = Some tgt \<and>
                sensor_value G g (fst tx) sty tgt q bp = Inr (row_value r, q', bp') \<and>
                r = \<lparr>row_timestamp = fst tx, row_sensor_id = snd tx,
                            row_attached_to = tgt, row_sensor_type = sty,
                            row_value = row_value r\<rparr>"
  have flat: "for_each (\<lambda>tx. sensor_step G g (fst tx) (snd tx))
                (List.product grid (sensor_nodes G))
                \<lparr>rng_pos = p, base_pressure = None, data = []\<rparr> = Inr st"
    using loop by (simp add: for_each_product)
  let ?xs = "List.product grid (sensor_nodes G)"
  let ?st0 = "\<lparr>rng_pos = p, base_pressure = None, data = []\<rparr>"
  have "True \<and> (\<exists>rs. data st = data ?st0 @ rs \<and> length rs = length ?xs \<and>
                   (\<forall>j < length ?xs. ?Q (length (data ?st0) + j) (?xs ! j) (rs ! j)))"
  proof (rule for_each_rows[where I = "\<lambda>_. True" and proj = data and Q = ?Q
        and body = "\<lambda>tx. sensor_step G g (fst tx) (snd tx)" and xs = ?xs and st = ?st0])
    show True ..
    show "for_each (\<lambda>tx. sensor_step G g (fst tx) (snd tx)) ?xs ?st0 = Inr st"
      by (rule flat)
  next
    fix x st1 st2
    assume "sensor_step G g (fst x) (snd x) st1 = Inr st2"
    from sensor_step_row[OF this] obtain a sty tgt v where
      a: "node_lookup G (snd x) = Inr a" "sensor_type a = Some sty" "attached_to a = Some tgt"
      and v: "sensor_value G g (fst x) sty tgt (rng_pos st1) (base_pressure st1)
             = Inr (v, rng_pos st2, base_pressure st2)"
      and d: "data st2 = data st1 @ [\<lparr>row_timestamp = fst x, row_sensor_id = snd x,
                                   row_attached_to = tgt, row_sensor_type = sty,
                                   row_value = v\<rparr>]"
      by blast
    let ?r = "\<lparr>row_timestamp = fst x, row_sensor_id = snd x,
                                   row_attached_to = tgt, row_sensor_type = sty,
                                   row_value = v\<rparr>"
    have "?Q (length (data st1)) x ?r"
      using a v by (intro exI[of _ a] exI[of _ sty] exI[of _ tgt] exI[of _ "rng_pos st1"]
          exI[of _ "base_pressure st1"] exI[of _ "rng_pos st2"] exI[of _ "base_pressure st2"])
        simp
    with d show "True \<and> (\<exists>r. data st2 = data st1 @ [r] \<and> ?Q (length (data st1)) x r)"
      by blast
  qed
  then obtain rs where "data st = rs" "length rs = length (List.product grid (sensor_nodes G))"
    "\<forall>j < length (List.product grid (sensor_nodes G)).
        ?Q j (List.product grid (sensor_nodes G) ! j) (rs ! j)"
    by auto
  with grid df show ?thesis
    by (intro exI[of _ grid] exI[of _ rs] conjI) simp_all
qed

lemma zone_step_row:
  assumes "zone_step G g t z st = Inr st'"
  shows "\<exists>a bd profile. node_lookup G z = Inr a \<and> base_demand a = Some bd \<and>
           demand_profile a = Some profile \<and> fst st' = Suc (fst st) \<and>
           snd st' = snd st @ [\<lparr>crow_timestamp = t, crow_zone_id = z,
              consumption_liters_per_sec =
                max 0 (bd * weekend_adjust profile (weekday t) (daily_factor profile (hour t))
                          * seasonal_factor (dayofyear t) + normal g (fst st) 0 2)\<rparr>]"
  using assms
  by (auto simp: zone_step_def attr_def Let_def split: sum.splits option.splits)

lemma consumption_rows:
  assumes run: "generate_consumption_data G s e k g p = Inr (df, p')"
  shows "\<exists>grid rows. date_range s e k = Inr grid \<and> df = DataFrame rows \<and>
           length rows = length (List.product grid (consumption_zones G)) \<and>
           p' = p + length rows \<and>
           (\<forall>j < length rows.
              \<exists>a bd profile.
                node_lookup G (snd (List.product grid (consumption_zones G) ! j)) = Inr a \<and>
                base_demand a = Some bd \<and> demand_profile a = Some profile \<and>
                rows ! j =
                  \<lparr>crow_timestamp = fst (List.product grid (consumption_zones G) ! j),
                   crow_zone_id = snd (List.product grid (consumption_zones G) ! j),
                   consumption_liters_per_sec =
                     max 0 (bd * weekend_adjust profile
                                   (weekday (fst (List.product grid (consumption_zones G) ! j)))
                                   (daily_factor profile
                                      (hour (fst (List.product grid (consumption_zones G) ! j))))
                               * seasonal_factor
                                   (dayofyear (fst (List.product grid (consumption_zones G) ! j)))
                            + normal g (p + j) 0 2)\<rparr>)"
proof -
  from run obtain grid st where
    grid: "date_range s e k = Inr grid" and
    loop: "for_each (\<lambda>t. for_each (zone_step G g t) (consumption_zones G)) grid (p, [])
             = Inr st" and
    df: "df = DataFrame (snd st)" and p': "p' = fst st"
    by (auto simp: generate_consumption_data_def split: sum.splits)
  let ?xs = "List.product grid (consumption_zones G)"
  let ?Q = "\<lambda>(j::nat) tx r. \<exists>a bd profile.
                node_lookup G (snd tx) = Inr a \<and>
                base_demand a = Some bd \<and> demand_profile a = Some profile \<and>
                r = \<lparr>crow_timestamp = fst tx, crow_zone_id = snd tx,
                     consumption_liters_per_sec =
                       max 0 (bd * weekend_adjust profile (weekday (fst tx))
                                     (daily_factor profile (hour (fst tx)))
                                 * seasonal_factor (dayofyear (fst tx))
                              + normal g (p + j) 0 2)\<rparr>"
  let ?I = "\<lambda>st :: nat \<times> consumption_row list. fst st = p + length (snd st)"
  have flat: "for_each (\<lambda>tx. zone_step G g (fst tx) (snd tx)) ?xs (p, []) = Inr st"
    using loop by (simp add: for_each_product)
  let ?st0 = "(p, []) :: nat \<times> consumption_row list"
  have "?I st \<and> (\<exists>rs. snd st = snd ?st0 @ rs \<and> length rs = length ?xs \<and>
                   (\<forall>j < length ?xs. ?Q (length (snd ?st0) + j) (?xs ! j) (rs ! j)))"
  proof (rule for_each_rows[where I = ?I and proj = snd and Q = ?Q
        and body = "\<lambda>tx. zone_step G g (fst tx) (snd tx)" and xs = ?xs and st = ?st0])
    show "?I ?st0" by simp
    show "for_each (\<lambda>tx. zone_step G g (fst tx) (snd tx)) ?xs (p, []) = Inr st"
      by (rule flat)
  next
    fix x and st1 st2 :: "nat \<times> consumption_row list"
    assume inv: "fst st1 = p + length (snd st1)"
    assume "zone_step G g (fst x) (snd x) st1 = Inr st2"
    from zone_step_row[OF this] obtain a bd profile where
      a: "node_lookup G (snd x) = Inr a" "base_demand a = Some bd"
         "demand_profile a = Some profile"
      and f: "fst st2 = Suc (fst st1)"
      and d: "snd st2 = snd st1 @ [\<lparr>crow_timestamp = fst x, crow_zone_id = snd x,
              consumption_liters_per_sec =
                max 0 (bd * weekend_adjust profile (weekday (fst x))
                              (daily_factor profile (hour (fst x)))
                          * seasonal_factor (dayofyear (fst x)) + normal g (fst st1) 0 2)\<rparr>]"
      by blast
    let ?r = "\<lparr>crow_timestamp = fst x, crow_zone_id = snd x,
              consumption_liters_per_sec =
                max 0 (bd * weekend_adjust profile (weekday (fst x))
                              (daily_factor profile (hour (fst x)))
                          * seasonal_factor (dayofyear (fst x)) + normal g (fst st1) 0 2)\<rparr>"
    have q: "?Q (length (snd st1)) x ?r"
      using a inv by (intro exI[of _ a] exI[of _ bd] exI[of _ profile]) simp
    have "fst st2 = p + length (snd st2)" using f d inv by simp
    with d q show "?I st2 \<and> (\<exists>r. snd st2 = snd st1 @ [r] \<and> ?Q (length (snd st1)) x r)"
      by blast
  qed
  then obtain rs where "snd st = rs" "length rs = length ?xs" "fst st = p + length rs"
    "\<forall>j < length ?xs. ?Q j (?xs ! j) (rs ! j)"
    by auto
  with grid df p' show ?thesis
    by (intro exI[of _ grid] exI[of _ rs] conjI) simp_all
qed

lemma sensor_table_keys:
  assumes "generate_sensor_data G s e k g p = Inr (df, p')"
      and "date_range s e k = Inr time_index"
  shows "map (\<lambda>lr. (row_timestamp (snd lr), row_sensor_id (snd lr))) df
           = List.product time_index (sensor_nodes G)"
proof -
  from sensor_rows[OF assms(1)] assms(2) obtain rows where
    df: "df = DataFrame rows" and
    len: "length rows = length (List.product time_index (sensor_nodes G))" and
    rows: "\<forall>j < length rows. \<exists>a sty tgt q bp q' bp'.
                node_lookup G (snd (List.product time_index (sensor_nodes G) ! j)) = Inr a \<and>
                sensor_type a = Some sty \<and> attached_to a = Some tgt \<and>
                sensor_value G g (fst (List.product time_index (sensor_nodes G) ! j)) sty tgt q bp
                  = Inr (row_value (rows ! j), q', bp') \<and>
                rows ! j = \<lparr>row_timestamp = fst (List.product time_index (sensor_nodes G) ! j),
                            row_sensor_id = snd (List.product time_index (sensor_nodes G) ! j),
                            row_attached_to = tgt, row_sensor_type = sty,
                            row_value = row_value (rows ! j)\<rparr>"
    by auto
  show ?thesis
  proof (rule nth_equalityI)
    show "length (map (\<lambda>lr. (row_timestamp (snd lr), row_sensor_id (snd lr))) df)
            = length (List.product time_index (sensor_nodes G))"
      using df len by simp
  next
    fix j assume "j < length (map (\<lambda>lr. (row_timestamp (snd lr), row_sensor_id (snd lr))) df)"
    then have j: "j < length rows" using df by simp
    with rows obtain tgt sty where
      "rows ! j = \<lparr>row_timestamp = fst (List.product time_index (sensor_nodes G) ! j),
                            row_sensor_id = snd (List.product time_index (sensor_nodes G) ! j),
                            row_attached_to = tgt, row_sensor_type = sty,
                            row_value = row_value (rows ! j)\<rparr>"
      by blast
    then have "row_timestamp (rows ! j) = fst (List.product time_index (sensor_nodes G) ! j)"
      "row_sensor_id (rows ! j) = snd (List.product time_index (sensor_nodes G) ! j)"
      by (metis sensor_row.select_convs(1), metis sensor_row.select_convs(2))
    then show "map (\<lambda>lr. (row_timestamp (snd lr), row_sensor_id (snd lr))) df ! j
                 = List.product time_index (sensor_nodes G) ! j"
      using j df by simp
  qed
qed

lemma consumption_table_keys:
  assumes "generate_consumption_data G s e k g p = Inr (df, p')"
      and "date_range s e k = Inr time_index"
  shows "map (\<lambda>lr. (crow_timestamp (snd lr), crow_zone_id (snd lr))) df
           = List.product time_index (consumption_zones G)"
proof -
  let ?xs = "List.product time_index (consumption_zones G)"
  from consumption_rows[OF assms(1)] assms(2) obtain rows where
    df: "df = DataFrame rows" and
    len: "length rows = length ?xs" and
    rows: "\<forall>j < length rows. \<exists>a bd profile.
                node_lookup G (snd (?xs ! j)) = Inr a \<and>
                base_demand a = Some bd \<and> demand_profile a = Some profile \<and>
                rows ! j =
                  \<lparr>crow_timestamp = fst (?xs ! j),
                   crow_zone_id = snd (?xs ! j),
                   consumption_liters_per_sec =
                     max 0 (bd * weekend_adjust profile (weekday (fst (?xs ! j)))
                                   (daily_factor profile (hour (fst (?xs ! j))))
                               * seasonal_factor (dayofyear (fst (?xs ! j)))
                            + normal g (p + j) 0 2)\<rparr>"
    by auto
  show ?thesis
  proof (rule nth_equalityI)
    show "length (map (\<lambda>lr. (crow_timestamp (snd lr), crow_zone_id (snd lr))) df) = length ?xs"
      using df len by simp
  next
    fix j assume "j < length (map (\<lambda>lr. (crow_timestamp (snd lr), crow_zone_id (snd lr))) df)"
    then have j: "j < length rows" using df by simp
    with rows obtain v where
      "rows ! j = \<lparr>crow_timestamp = fst (?xs ! j), crow_zone_id = snd (?xs ! j),
                   consumption_liters_per_sec = v\<rparr>"
      by blast
    then have "crow_timestamp (rows ! j) = fst (?xs ! j)"
      "crow_zone_id (rows ! j) = snd (?xs ! j)"
      by simp_all
    then show "map (\<lambda>lr. (crow_timestamp (snd lr), crow_zone_id (snd lr))) df ! j = ?xs ! j"
      using j df by simp
  qed
qed

lemma sensor_table_row:
  assumes run: "generate_sensor_data G s e k g p = Inr (df, p')" and r: "(l, r) \<in> set df"
  shows "\<exists>a q bp q' bp'. node_lookup G (row_sensor_id r) = Inr a \<and>
           sensor_type a = Some (row_sensor_type r) \<and>
           attached_to a = Some (row_attached_to r) \<and>
           sensor_value G g (row_timestamp r) (row_sensor_type r) (row_attached_to r) q bp
             = Inr (row_value r, q', bp')"
proof -
  from sensor_rows[OF run] obtain grid rows where
    df: "df = DataFrame rows" and
    rows: "\<forall>j < length rows. \<exists>a sty tgt q bp q' bp'.
                node_lookup G (snd (List.product grid (sensor_nodes G) ! j)) = Inr a \<and>
                sensor_type a = Some sty \<and> attached_to a = Some tgt \<and>
                sensor_value G g (fst (List.product grid (sensor_nodes G) ! j)) sty tgt q bp
                  = Inr (row_value (rows ! j), q', bp') \<and>
                rows ! j = \<lparr>row_timestamp = fst (List.product grid (sensor_nodes G) ! j),
                            row_sensor_id = snd (List.product grid (sensor_nodes G) ! j),
                            row_attached_to = tgt, row_sensor_type = sty,
                            row_value = row_value (rows ! j)\<rparr>"
    by blast
  from r df have "r \<in> set rows"
    by (metis map_snd_DataFrame set_zip_rightD DataFrame_def)
  then obtain j where j: "j < length rows" and rj: "rows ! j = r"
    by (auto simp: in_set_conv_nth)
  let ?tx = "List.product grid (sensor_nodes G) ! j"
  from rows j rj obtain a sty tgt q bp q' bp' where
    a: "node_lookup G (snd ?tx) = Inr a" "sensor_type a = Some sty" "attached_to a = Some tgt"
    and v: "sensor_value G g (fst ?tx) sty tgt q bp = Inr (row_value r, q', bp')"
    and eq: "r = \<lparr>row_timestamp = fst ?tx, row_sensor_id = snd ?tx,
                   row_attached_to = tgt, row_sensor_type = sty, row_value = row_value r\<rparr>"
    by metis
  have sel: "row_timestamp r = fst ?tx" "row_sensor_id r = snd ?tx" "row_attached_to r = tgt"
    "row_sensor_type r = sty"
    by (metis eq sensor_row.select_convs(1), metis eq sensor_row.select_convs(2),
        metis eq sensor_row.select_convs(3), metis eq sensor_row.select_convs(4))
  show ?thesis
    using a v unfolding sel[symmetric] by blast
qed

lemma level_value_Inr:
  assumes "level_value G g q t = Inr v"
  shows "\<exists>a lvl cap. node_lookup G ''R1'' = Inr a \<and> current_level a = Some lvl \<and>
           capacity a = Some cap \<and>
           v = max 0 (min cap (lvl + sin (real_of_int (dayofyear t) / 365 * 2 * pi) * 50000
                               + normal g q 0 10000))"
  using assms
  by (auto simp: level_value_def attr_def Let_def split: sum.splits option.splits)

lemma sensor_value_nonneg:
  assumes "sensor_value G g t sty tgt q bp = Inr (v, q', bp')"
  shows "0 \<le> v"
  using assms
  by (auto simp: sensor_value_def level_value_def Let_def attr_def
      split: if_splits sum.splits option.splits)

lemma sensor_value_level_bound:
  assumes "sensor_value G g t ''Level'' tgt q bp = Inr (v, q', bp')"
  shows "v \<le> max 0 (reservoir_capacity G)"
proof (cases "tgt = ''R1''")
  case False
  with assms show ?thesis by (simp add: sensor_value_def)
next
  case True
  with assms have "level_value G g q t = Inr v"
    by (auto simp: sensor_value_def split: sum.splits)
  from level_value_Inr[OF this] obtain a lvl cap where
    "node_lookup G ''R1'' = Inr a" "capacity a = Some cap"
    "v = max 0 (min cap (lvl + sin (real_of_int (dayofyear t) / 365 * 2 * pi) * 50000
                               + normal g q 0 10000))"
    by blast
  then show ?thesis
    by (auto simp: reservoir_capacity_def node_lookup_def split: option.splits)
qed

lemma consumption_table_row:
  assumes run: "generate_consumption_data G s e k g p = Inr (df, p')" and r: "(l, c) \<in> set df"
  shows "\<exists>x. consumption_liters_per_sec c = max 0 x"
proof -
  from consumption_rows[OF run] obtain grid rows where
    df: "df = DataFrame rows" and
    rows: "\<forall>j < length rows.
              \<exists>a bd profile.
                node_lookup G (snd (List.product grid (consumption_zones G) ! j)) = Inr a \<and>
                base_demand a = Some bd \<and> demand_profile a = Some profile \<and>
                rows ! j =
                  \<lparr>crow_timestamp = fst (List.product grid (consumption_zones G) ! j),
                   crow_zone_id = snd (List.product grid (consumption_zones G) ! j),
                   consumption_liters_per_sec =
                     max 0 (bd * weekend_adjust profile
                                   (weekday (fst (List.product grid (consumption_zones G) ! j)))
                                   (daily_factor profile
                                      (hour (fst (List.product grid (consumption_zones G) ! j))))
                               * seasonal_factor
                                   (dayofyear (fst (List.product grid (consumption_zones G) ! j)))
                            + normal g (p + j) 0 2)\<rparr>"
    by blast
  from r df have "c \<in> set rows"
    by (metis map_snd_DataFrame set_zip_rightD DataFrame_def)
  then obtain j where j: "j < length rows" and cj: "rows ! j = c"
    by (auto simp: in_set_conv_nth)
  from rows j cj obtain t z x where "c = \<lparr>crow_timestamp = t, crow_zone_id = z,
                   consumption_liters_per_sec = max 0 x\<rparr>"
    by metis
  then have "consumption_liters_per_sec c = max 0 x" by simp
  then show ?thesis ..
qed

lemma downstream_loop_sum:
  assumes "downstream_loop G ns d = Inr b"
  shows "b = d + sum_list (map (demand_of G) (filter (is_zone G) ns))"
  using assms
proof (induction ns arbitrary: d)
  case Nil
  then show ?case by simp
next
  case (Cons n ns)
  from Cons.prems obtain a ty where a: "map_of (node_list G) n = Some a"
    and ty: "node_type a = Some ty"
    by (auto simp: node_lookup_def attr_def split: option.splits sum.splits)
  show ?case
  proof (cases "ty = ''ConsumptionZone''")
    case True
    with Cons.prems a ty obtain bd where bd: "base_demand a = Some bd"
      and rest: "downstream_loop G ns (d + bd) = Inr b"
      by (auto simp: node_lookup_def attr_def split: option.splits sum.splits)
    from Cons.IH[OF rest] a ty bd True show ?thesis
      by (simp add: is_zone_def demand_of_def)
  next
    case False
    with Cons.prems a ty have rest: "downstream_loop G ns d = Inr b"
      by (auto simp: node_lookup_def attr_def split: option.splits sum.splits)
    from Cons.IH[OF rest] a ty False show ?thesis
      by (simp add: is_zone_def)
  qed
qed

lemma flow_base_cases:
  assumes "node_lookup G n = Inr a" and "node_type a = Some ty" and "flow_base G n = Inr b"
  shows "(ty = ''ConsumptionZone'' \<longrightarrow> base_demand a = Some b) \<and>
         (ty = ''Junction'' \<longrightarrow>
            b = (if 0 < sum_list (map (demand_of G) (zone_successors G n))
                 then sum_list (map (demand_of G) (zone_successors G n)) else 150)) \<and>
         (ty \<noteq> ''ConsumptionZone'' \<and> ty \<noteq> ''Junction'' \<longrightarrow>
            b = (case pump_rate a of None \<Rightarrow> 0 | Some x \<Rightarrow> x))"
proof (intro conjI impI)
  assume "ty = ''ConsumptionZone''"
  with assms show "base_demand a = Some b"
    by (auto simp: flow_base_def attr_def split: option.splits)
next
  assume j: "ty = ''Junction''"
  with assms obtain dd where
    loop: "downstream_loop G (successors G n) 0 = Inr dd" and
    b: "b = (if 0 < dd then dd else 150)"
    by (auto simp: flow_base_def attr_def split: option.splits sum.splits)
  from downstream_loop_sum[OF loop]
  have "dd = sum_list (map (demand_of G) (zone_successors G n))"
    by (simp add: zone_successors_def)
  with b show "b = (if 0 < sum_list (map (demand_of G) (zone_successors G n))
                 then sum_list (map (demand_of G) (zone_successors G n)) else 150)"
    by simp
next
  assume "ty \<noteq> ''ConsumptionZone'' \<and> ty \<noteq> ''Junction''"
  with assms show "b = (case pump_rate a of None \<Rightarrow> 0 | Some x \<Rightarrow> x)"
    by (auto simp: flow_base_def attr_def split: option.splits)
qed

lemma hour_range: "0 \<le> hour t \<and> hour t < 24"
  by (simp add: hour_def)

lemma weekday_range: "0 \<le> weekday t \<and> weekday t < 7"
  by (simp add: weekday_def)

lemma daily_factor_spec:
  assumes "0 \<le> h" "h < 24"
      and "profile \<in> {''residential'', ''commercial'', ''industrial''}"
  shows "spec_bucket_factor (spec_buckets profile) h = Some (daily_factor profile h)"
  using assms
  by (auto simp: spec_bucket_factor_def spec_buckets_def daily_factor_def)

lemma weekend_adjust_spec:
  assumes "0 \<le> wd" "wd < 7"
  shows "weekend_adjust profile wd f = f * spec_weekend_multiplier profile wd"
proof -
  from assms have "wd \<ge> 5 \<longleftrightarrow> wd = 5 \<or> wd = 6" by auto
  then show ?thesis
    by (simp add: weekend_adjust_def spec_weekend_multiplier_def)
qed

lemma seasonal_factor_spec: "seasonal_factor d = spec_seasonal d"
  by (simp add: seasonal_factor_def spec_seasonal_def)

lemma generated_labels:
  assumes "generate_sensor_data G s e k g p = Inr (df, p')"
  shows "map fst df = [0 ..< length df]"
proof -
  from sensor_rows[OF assms] obtain rows where "df = DataFrame rows" by blast
  then show ?thesis by simp
qed

lemma generated_labels_distinct:
  assumes "generate_sensor_data G s e k g p = Inr (df, p')"
  shows "distinct (map fst df)"
  unfolding generated_labels[OF assms] by simp

section \<open>The example network, evaluated\<close>

lemma example_calendar:
  "hour example_start = 0" "hour example_end = 0"
  "dayofyear example_start = 365" "dayofyear example_end = 365"
  "weekday example_start = 3" "weekday example_end = 3"
  by code_simp+

lemma example_grid: "date_range example_start example_end 5 = Inr [example_start, example_end]"
  by code_simp

lemma example_grid1: "date_range example_start example_start 5 = Inr [example_start]"
  by (simp add: date_range_same)

lemma example_sensor_nodes: "sensor_nodes example_network = [''S_F_J1'', ''S_P_J1'', ''S_L_R1'']"
  by code_simp

lemma example_lookup:
  "node_lookup example_network ''R1'' =
     Inr (no_attrs\<lparr>node_type := Some ''Reservoir'', capacity := Some 1000000,
                    current_level := Some 900000\<rparr>)"
  "node_lookup example_network ''J1'' = Inr (plain_node ''Junction'')"
  "node_lookup example_network ''Z1'' = Inr (zone_node ''residential'' 100)"
  "node_lookup example_network ''S_F_J1'' = Inr (sensor_node ''Flow'' ''J1'')"
  "node_lookup example_network ''S_P_J1'' = Inr (sensor_node ''Pressure'' ''J1'')"
  "node_lookup example_network ''S_L_R1'' = Inr (sensor_node ''Level'' ''R1'')"
  by (simp_all add: node_lookup_def example_network_def)

lemma example_successors: "successors example_network ''J1'' = [''Z1'']"
  by (simp add: successors_def example_network_def)

lemma example_zones: "consumption_zones example_network = [''Z1'']"
  by code_simp

lemma example_sensor_table:
  "generate_sensor_data example_network example_start example_start 5 (\<lambda>_. 0) 0 =
     Inr (example_table, 4)"
  by (simp add: generate_sensor_data_def example_grid1 example_sensor_nodes sensor_step_def
      example_lookup attr_def sensor_node_def plain_node_def zone_node_def no_attrs_def
      sensor_value_def flow_base_def example_successors pressure_base_def level_value_def
      pattern_factor_def normal_def example_calendar DataFrame_def example_table_def)

lemma example_consumption_table:
  "generate_consumption_data example_network example_start example_start 5 (\<lambda>_. 0) 0 =
     Inr (example_consumption, 1)"
  by (simp add: generate_consumption_data_def example_grid1 example_zones zone_step_def
      example_lookup attr_def zone_node_def no_attrs_def weekend_adjust_def daily_factor_def
      normal_def example_calendar DataFrame_def example_consumption_def)


lemma second_reservoir_table:
  "generate_sensor_data second_reservoir_network example_start example_start 5 (\<lambda>_. 0) 0 =
     Inr ([(0, \<lparr>row_timestamp = example_start, row_sensor_id = ''S_L_R2'',
                 row_attached_to = ''R2'', row_sensor_type = ''Level'', row_value = 0\<rparr>)], 0)"
  by (simp add: generate_sensor_data_def example_grid1 sensor_nodes_def
      second_reservoir_network_def sensor_step_def node_lookup_def attr_def sensor_node_def
      no_attrs_def sensor_value_def DataFrame_def)

lemma example_capacity: "reservoir_capacity example_network = 1000000"
  by (simp add: reservoir_capacity_def example_network_def no_attrs_def)

lemma idle_zone_flow_base: "flow_base idle_zone_network ''J1'' = Inr 150"
  by (simp add: flow_base_def node_lookup_def idle_zone_network_def plain_node_def
      zone_node_def no_attrs_def attr_def successors_def)

lemma idle_zone_table:
  "generate_sensor_data idle_zone_network example_start example_start 5 (\<lambda>_. 0) 0 =
     Inr ([(0, \<lparr>row_timestamp = example_start, row_sensor_id = ''S_F_J1'',
                 row_attached_to = ''J1'', row_sensor_type = ''Flow'', row_value = 90\<rparr>)], 2)"
  by (simp add: generate_sensor_data_def example_grid1 sensor_nodes_def idle_zone_network_def
      sensor_step_def node_lookup_def attr_def sensor_node_def plain_node_def zone_node_def
      no_attrs_def sensor_value_def flow_base_def successors_def pattern_factor_def normal_def
      example_calendar DataFrame_def)

lemma idle_zone_successors: "zone_successors idle_zone_network ''J1'' = [''Z1'']"
  by (simp add: zone_successors_def successors_def is_zone_def idle_zone_network_def
      zone_node_def no_attrs_def)

lemma pump_table:
  "generate_sensor_data pump_network example_start example_start 5 (\<lambda>_. 0) 0 =
     Inr ([(0, \<lparr>row_timestamp = example_start, row_sensor_id = ''S_F_P1'',
                 row_attached_to = ''P1'', row_sensor_type = ''Flow'', row_value = 300\<rparr>)], 2)"
  by (simp add: generate_sensor_data_def example_grid1 sensor_nodes_def pump_network_def
      sensor_step_def node_lookup_def attr_def sensor_node_def
      no_attrs_def sensor_value_def flow_base_def pattern_factor_def normal_def
      example_calendar DataFrame_def)

lemma example_bucket:
  "spec_bucket_factor (spec_buckets ''residential'') (hour example_start) = Some 0.5"
  by (simp add: spec_bucket_factor_def spec_buckets_def example_calendar)

lemma example_ancestors: "ancestors example_network ''J1'' = Inr [''R1'']"
  by code_simp

lemma example_leak:
  "inject_leak_event example_table example_network ''J1'' example_start example_start
     (1 / 5) (\<lambda>_. 1 / 2) 0 =
   Inr ([(0, \<lparr>row_timestamp = example_start, row_sensor_id = ''S_F_J1'',
               row_attached_to = ''J1'', row_sensor_type = ''Flow'', row_value = 72\<rparr>),
         (1, \<lparr>row_timestamp = example_start, row_sensor_id = ''S_P_J1'',
               row_attached_to = ''J1'', row_sensor_type = ''Pressure'', row_value = 400000\<rparr>),
         (2, \<lparr>row_timestamp = example_start, row_sensor_id = ''S_L_R1'',
               row_attached_to = ''R1'', row_sensor_type = ''Level'', row_value = 900000\<rparr>)], 2)"
  by (simp add: inject_leak_event_def example_ancestors example_table_def leak_step_def
      near_leak_def loc_set_value_def uniform_def)

lemma example_affected:
  "leak_affected example_network ''J1'' example_start example_start (snd (example_table ! 0))"
  "leak_affected example_network ''J1'' example_start example_start (snd (example_table ! 1))"
  "\<not> leak_affected example_network ''J1'' example_start example_start (snd (example_table ! 2))"
  by (simp_all add: leak_affected_def example_table_def)

lemma example_absent:
  "''J9'' \<notin> set (node_ids example_network)"
  "''R1'' \<notin> set (node_ids second_reservoir_network)"
  by (simp_all add: node_ids_def example_network_def second_reservoir_network_def)

lemma example_networks_wf:
  "wf_network example_network" "wf_network idle_zone_network" "wf_network pump_network"
  "wf_network valve_network" "wf_network junction_valve_network"
  "wf_network second_reservoir_network"
  by (simp_all add: wf_network_def example_network_def idle_zone_network_def pump_network_def
      valve_network_def junction_valve_network_def second_reservoir_network_def)

section \<open>Dependence on the random source\<close>

lemma for_each_rel:
  assumes step: "\<And>x s1 s2. x \<in> set xs \<Longrightarrow> R s1 s2 \<Longrightarrow>
                   rel_sum (=) R (body1 x s1) (body2 x s2)"
      and init: "R s1 s2"
  shows "rel_sum (=) R (for_each body1 xs s1) (for_each body2 xs s2)"
  using assms
proof (induction xs arbitrary: s1 s2)
  case Nil
  then show ?case by simp
next
  case (Cons x xs)
  have here: "rel_sum (=) R (body1 x s1) (body2 x s2)"
    using Cons.prems by simp
  show ?case
  proof (cases "body1 x s1")
    case (Inl e)
    with here have "body2 x s2 = Inl e" by (cases "body2 x s2") auto
    with Inl show ?thesis by simp
  next
    case (Inr t1)
    with here obtain t2 where t2: "body2 x s2 = Inr t2" and r: "R t1 t2"
      by (cases "body2 x s2") auto
    have "rel_sum (=) R (for_each body1 xs t1) (for_each body2 xs t2)"
      by (rule Cons.IH) (use Cons.prems(1) r in auto)
    with Inr t2 show ?thesis by simp
  qed
qed

lemma sensor_value_same_draws:
  assumes "g q = g' q" and "g (Suc q) = g' (Suc q)"
  shows "sensor_value G g t sty tgt q bp = sensor_value G g' t sty tgt q bp"
  unfolding sensor_value_def pattern_factor_def normal_def level_value_def assms ..

lemma sensor_value_pos:
  assumes "sensor_value G g t sty tgt q bp = Inr (v, q', bp')"
  shows "q \<le> q'"
  using assms
  by (auto simp: sensor_value_def split: if_splits sum.splits option.splits)

lemma sensor_step_same_draws:
  assumes agree: "\<forall>n\<ge>p. g n = g' n" and pos: "p \<le> rng_pos st"
  shows "sensor_step G g t sid st = sensor_step G g' t sid st"
proof -
  have "sensor_value G g t sty tgt (rng_pos st) bp = sensor_value G g' t sty tgt (rng_pos st) bp"
    for sty tgt bp
    by (rule sensor_value_same_draws) (use agree pos in auto)
  then show ?thesis by (simp add: sensor_step_def cong: sum.case_cong)
qed

lemma sensor_step_pos:
  assumes "sensor_step G g t sid st = Inr st'"
  shows "rng_pos st \<le> rng_pos st'"
proof -
  from sensor_step_row[OF assms] obtain sty tgt v where
    "sensor_value G g t sty tgt (rng_pos st) (base_pressure st)
             = Inr (v, rng_pos st', base_pressure st')"
    by blast
  then show ?thesis by (rule sensor_value_pos)
qed

lemma sensor_loop_same_draws:
  assumes agree: "\<forall>n\<ge>p. g n = g' n" and pos: "p \<le> rng_pos st"
  shows "for_each (\<lambda>tx. sensor_step G g (fst tx) (snd tx)) xs st
         = for_each (\<lambda>tx. sensor_step G g' (fst tx) (snd tx)) xs st"
proof -
  let ?R = "\<lambda>s1 s2 :: gen_state. s1 = s2 \<and> p \<le> rng_pos s1"
  have "rel_sum (=) ?R (for_each (\<lambda>tx. sensor_step G g (fst tx) (snd tx)) xs st)
          (for_each (\<lambda>tx. sensor_step G g' (fst tx) (snd tx)) xs st)"
  proof (rule for_each_rel)
    show "?R st st" using pos by simp
  next
    fix x and s1 s2 :: gen_state
    assume r: "s1 = s2 \<and> p \<le> rng_pos s1"
    then have p1: "p \<le> rng_pos s1" and s: "s2 = s1" by auto
    from sensor_step_same_draws[OF agree p1]
    have eq: "sensor_step G g (fst x) (snd x) s1 = sensor_step G g' (fst x) (snd x) s2"
      unfolding s .
    show "rel_sum (=) ?R (sensor_step G g (fst x) (snd x) s1)
            (sensor_step G g' (fst x) (snd x) s2)"
    proof (cases "sensor_step G g (fst x) (snd x) s1")
      case (Inl e)
      then have 2: "sensor_step G g' (fst x) (snd x) s2 = Inl e" using eq by simp
      show ?thesis unfolding Inl 2 by simp
    next
      case (Inr t1)
      then have 2: "sensor_step G g' (fst x) (snd x) s2 = Inr t1" using eq by simp
      from sensor_step_pos[OF Inr] p1 have "p \<le> rng_pos t1" by simp
      then show ?thesis unfolding Inr 2 by simp
    qed
  qed
  then show ?thesis
    by (cases "for_each (\<lambda>tx. sensor_step G g (fst tx) (snd tx)) xs st";
        cases "for_each (\<lambda>tx. sensor_step G g' (fst tx) (snd tx)) xs st") auto
qed

lemma sensor_data_same_draws:
  assumes "\<forall>n\<ge>p. g n = g' n"
  shows "generate_sensor_data G s e k g p = generate_sensor_data G s e k g' p"
  using sensor_loop_same_draws[OF assms, of "\<lparr>rng_pos = p, base_pressure = None, data = []\<rparr>" G]
  by (simp add: generate_sensor_data_def for_each_product cong: sum.case_cong)

lemma normal_zero: "normal (\<lambda>_. 0) q mu sigma = mu"
  by (simp add: normal_def)

lemma sensor_value_zero:
  "rel_sum (=) (\<lambda>a b. fst a = fst b \<and> snd (snd a) = snd (snd b))
     (sensor_value G (\<lambda>_. 0) t sty tgt q bp) (sensor_value G (\<lambda>_. 0) t sty tgt q2 bp)"
proof -
  have pf: "pattern_factor (\<lambda>_. 0) q h = pattern_factor (\<lambda>_. 0) q2 h" for h
    by (simp add: pattern_factor_def normal_zero)
  have lv: "level_value G (\<lambda>_. 0) q t = level_value G (\<lambda>_. 0) q2 t"
    by (simp add: level_value_def normal_zero cong: sum.case_cong)
  show ?thesis
    by (auto simp: sensor_value_def normal_zero pf lv split: sum.splits option.splits)
qed

lemma sensor_step_zero:
  assumes bp: "base_pressure s1 = base_pressure s2" and d: "data s1 = data s2"
  shows "rel_sum (=) (\<lambda>a b. base_pressure a = base_pressure b \<and> data a = data b)
           (sensor_step G (\<lambda>_. 0) t sid s1) (sensor_step G (\<lambda>_. 0) t sid s2)"
proof (cases "node_lookup G sid")
  case (Inl e)
  then show ?thesis by (simp add: sensor_step_def)
next
  case a: (Inr a)
  show ?thesis
  proof (cases "attr sensor_type ''sensor_type'' a")
    case (Inl e)
    with a show ?thesis by (simp add: sensor_step_def)
  next
    case sty: (Inr sty)
    show ?thesis
    proof (cases "attr attached_to ''attached_to'' a")
      case (Inl e)
      with a sty show ?thesis by (simp add: sensor_step_def)
    next
      case tgt: (Inr tgt)
      have rel: "rel_sum (=) (\<lambda>a b. fst a = fst b \<and> snd (snd a) = snd (snd b))
          (sensor_value G (\<lambda>_. 0) t sty tgt (rng_pos s1) (base_pressure s1))
          (sensor_value G (\<lambda>_. 0) t sty tgt (rng_pos s2) (base_pressure s2))"
        unfolding bp by (rule sensor_value_zero)
      show ?thesis
      proof (cases "sensor_value G (\<lambda>_. 0) t sty tgt (rng_pos s1) (base_pressure s1)")
        case (Inl e)
        with rel have "sensor_value G (\<lambda>_. 0) t sty tgt (rng_pos s2) (base_pressure s2) = Inl e"
          by (cases "sensor_value G (\<lambda>_. 0) t sty tgt (rng_pos s2) (base_pressure s2)") auto
        with Inl a sty tgt show ?thesis by (simp add: sensor_step_def)
      next
        case (Inr r1)
        with rel obtain r2 where
          2: "sensor_value G (\<lambda>_. 0) t sty tgt (rng_pos s2) (base_pressure s2) = Inr r2"
          and eq: "fst r1 = fst r2" "snd (snd r1) = snd (snd r2)"
          by (cases "sensor_value G (\<lambda>_. 0) t sty tgt (rng_pos s2) (base_pressure s2)") auto
        with Inr a sty tgt d show ?thesis
          by (auto simp: sensor_step_def split: prod.splits)
      qed
    qed
  qed
qed

lemma sensor_data_zero:
  "map_sum id fst (generate_sensor_data G s e k (\<lambda>_. 0) p)
   = map_sum id fst (generate_sensor_data G s e k (\<lambda>_. 0) p2)"
proof (cases "date_range s e k")
  case (Inl err)
  then show ?thesis by (simp add: generate_sensor_data_def)
next
  case (Inr grid)
  let ?R = "\<lambda>a b :: gen_state. base_pressure a = base_pressure b \<and> data a = data b"
  let ?run = "\<lambda>q. for_each (\<lambda>tx. sensor_step G (\<lambda>_. 0) (fst tx) (snd tx))
                     (List.product grid (sensor_nodes G))
                     \<lparr>rng_pos = q, base_pressure = None, data = []\<rparr>"
  have rel: "rel_sum (=) ?R (?run p) (?run p2)"
  proof (rule for_each_rel)
    show "?R \<lparr>rng_pos = p, base_pressure = None, data = []\<rparr>
             \<lparr>rng_pos = p2, base_pressure = None, data = []\<rparr>" by simp
  next
    fix x and s1 s2 :: gen_state
    assume "?R s1 s2"
    then show "rel_sum (=) ?R (sensor_step G (\<lambda>_. 0) (fst x) (snd x) s1)
                 (sensor_step G (\<lambda>_. 0) (fst x) (snd x) s2)"
      using sensor_step_zero by blast
  qed
  have flat: "generate_sensor_data G s e k (\<lambda>_. 0) q
      = (case ?run q of Inl err \<Rightarrow> Inl err | Inr st \<Rightarrow> Inr (DataFrame (data st), rng_pos st))"
    for q
    using Inr by (simp add: generate_sensor_data_def for_each_product)
  show ?thesis
  proof (cases "?run p")
    case 1: (Inl err)
    with rel have "?run p2 = Inl err" by (cases "?run p2") auto
    with 1 show ?thesis unfolding flat by simp
  next
    case 1: (Inr st1)
    with rel obtain st2 where 2: "?run p2 = Inr st2" and "data st1 = data st2"
      by (cases "?run p2") auto
    with 1 show ?thesis unfolding flat by simp
  qed
qed

lemma zone_step_same_draws:
  assumes "g (fst st) = g' (fst st)"
  shows "zone_step G g t z st = zone_step G g' t z st"
  unfolding zone_step_def normal_def assms ..

lemma zone_loop_same_draws:
  assumes agree: "\<forall>n\<ge>p. g n = g' n" and pos: "p \<le> fst st"
  shows "for_each (\<lambda>tx. zone_step G g (fst tx) (snd tx)) xs st
         = for_each (\<lambda>tx. zone_step G g' (fst tx) (snd tx)) xs st"
proof -
  let ?R = "\<lambda>s1 s2 :: nat \<times> consumption_row list. s1 = s2 \<and> p \<le> fst s1"
  have "rel_sum (=) ?R (for_each (\<lambda>tx. zone_step G g (fst tx) (snd tx)) xs st)
          (for_each (\<lambda>tx. zone_step G g' (fst tx) (snd tx)) xs st)"
  proof (rule for_each_rel)
    show "?R st st" using pos by simp
  next
    fix x and s1 s2 :: "nat \<times> consumption_row list"
    assume r: "s1 = s2 \<and> p \<le> fst s1"
    then have p1: "p \<le> fst s1" and s: "s2 = s1" by auto
    from agree p1 have "g (fst s1) = g' (fst s1)" by simp
    from zone_step_same_draws[of g s1 g', OF this]
    have eq: "zone_step G g (fst x) (snd x) s1 = zone_step G g' (fst x) (snd x) s2"
      unfolding s .
    show "rel_sum (=) ?R (zone_step G g (fst x) (snd x) s1)
            (zone_step G g' (fst x) (snd x) s2)"
    proof (cases "zone_step G g (fst x) (snd x) s1")
      case (Inl e)
      then have 2: "zone_step G g' (fst x) (snd x) s2 = Inl e" using eq by simp
      show ?thesis unfolding Inl 2 by simp
    next
      case (Inr t1)
      then have 2: "zone_step G g' (fst x) (snd x) s2 = Inr t1" using eq by simp
      from zone_step_row[OF Inr] p1 have "p \<le> fst t1" by auto
      then show ?thesis unfolding Inr 2 by simp
    qed
  qed
  then show ?thesis
    by (cases "for_each (\<lambda>tx. zone_step G g (fst tx) (snd tx)) xs st";
        cases "for_each (\<lambda>tx. zone_step G g' (fst tx) (snd tx)) xs st") auto
qed

lemma consumption_data_same_draws:
  assumes "\<forall>n\<ge>p. g n = g' n"
  shows "generate_consumption_data G s e k g p = generate_consumption_data G s e k g' p"
  using zone_loop_same_draws[OF assms, of "(p, [])" G]
  by (simp add: generate_consumption_data_def for_each_product cong: sum.case_cong)

lemma zone_step_zero:
  assumes d: "snd s1 = snd s2"
  shows "rel_sum (=) (\<lambda>a b. snd a = snd b)
           (zone_step G (\<lambda>_. 0) t z s1) (zone_step G (\<lambda>_. 0) t z s2)"
  using d
  by (auto simp: zone_step_def normal_zero Let_def split: sum.splits)

lemma consumption_data_zero:
  "map_sum id fst (generate_consumption_data G s e k (\<lambda>_. 0) p)
   = map_sum id fst (generate_consumption_data G s e k (\<lambda>_. 0) p2)"
proof (cases "date_range s e k")
  case (Inl err)
  then show ?thesis by (simp add: generate_consumption_data_def)
next
  case (Inr grid)
  let ?R = "\<lambda>a b :: nat \<times> consumption_row list. snd a = snd b"
  let ?run = "\<lambda>q. for_each (\<lambda>tx. zone_step G (\<lambda>_. 0) (fst tx) (snd tx))
                     (List.product grid (consumption_zones G))
                     ((q, []) :: nat \<times> consumption_row list)"
  have rel: "rel_sum (=) ?R (?run p) (?run p2)"
  proof (rule for_each_rel)
    show "?R (p, []) (p2, [])" by simp
  next
    fix x and s1 s2 :: "nat \<times> consumption_row list"
    assume "?R s1 s2"
    then show "rel_sum (=) ?R (zone_step G (\<lambda>_. 0) (fst x) (snd x) s1)
                 (zone_step G (\<lambda>_. 0) (fst x) (snd x) s2)"
      by (rule zone_step_zero)
  qed
  have flat: "generate_consumption_data G s e k (\<lambda>_. 0) q
      = (case ?run q of Inl err \<Rightarrow> Inl err | Inr st \<Rightarrow> Inr (DataFrame (snd st), fst st))"
    for q
    using Inr by (simp add: generate_consumption_data_def for_each_product)
  show ?thesis
  proof (cases "?run p")
    case 1: (Inl err)
    with rel have "?run p2 = Inl err" by (cases "?run p2") auto
    with 1 show ?thesis unfolding flat by simp
  next
    case 1: (Inr st1)
    with rel obtain st2 where 2: "?run p2 = Inr st2" and "snd st1 = snd st2"
      by (cases "?run p2") auto
    with 1 show ?thesis unfolding flat by simp
  qed
qed

section \<open>The loop of the leak injector\<close>

lemma ancestors_absent:
  "leak \<notin> set (node_ids G) \<Longrightarrow> ancestors G leak = Inl NetworkXError"
  by (simp add: ancestors_def)

lemma ancestors_member:
  assumes "ancestors G leak = Inr up"
  shows "x \<in> set up \<longleftrightarrow> x \<noteq> leak \<and> (x, leak) \<in> (set (edge_list G))\<^sup>+"
proof -
  have "x \<in> fst ` set (edge_list G)" if "(x, leak) \<in> (set (edge_list G))\<^sup>+"
  proof -
    from that have "x \<in> Domain ((set (edge_list G))\<^sup>+)" by blast
    then have "x \<in> Domain (set (edge_list G))" by simp
    then show ?thesis by (simp add: Domain_fst)
  qed
  with assms show ?thesis
    by (auto simp: ancestors_def split: if_splits)
qed

lemma near_leak_path:
  assumes "ancestors G leak = Inr up"
  shows "near_leak up leak r \<longleftrightarrow>
           row_attached_to r = leak \<or> (row_attached_to r, leak) \<in> (set (edge_list G))\<^sup>+"
  using ancestors_member[OF assms] by (auto simp: near_leak_def)

lemma leak_step_affected:
  assumes "ancestors G leak = Inr up"
  shows "leak_step up leak s e sev g (l, r) (df, p) =
           (if leak_affected G leak s e r
            then (loc_set_value df l (row_value (leak_scaled sev (uniform g p 0.8 1.2) r)), Suc p)
            else (df, p))"
  using near_leak_path[OF assms, of r]
  by (auto simp: leak_step_def leak_affected_def leak_scaled_def Let_def)

lemma loc_set_value_append:
  "loc_set_value (xs @ ys) l v = loc_set_value xs l v @ loc_set_value ys l v"
  by (simp add: loc_set_value_def)

lemma loc_set_value_absent:
  "l \<notin> fst ` set xs \<Longrightarrow> loc_set_value xs l v = xs"
  by (induction xs) (auto simp: loc_set_value_def)

lemma loc_set_value_Cons:
  "loc_set_value ((l, r) # xs) l v = (l, r\<lparr>row_value := v\<rparr>) # loc_set_value xs l v"
  by (simp add: loc_set_value_def)

lemma leak_fold:
  assumes anc: "ancestors G leak = Inr up"
  shows "distinct (map fst (pre @ rows)) \<Longrightarrow>
         fold (leak_step up leak s e sev g) rows (pre @ rows, p) =
           (pre @ leak_table (leak_affected G leak s e) sev g p rows,
            p + length (filter (leak_affected G leak s e) (map snd rows)))"
proof (induction rows arbitrary: pre p)
  case Nil
  then show ?case by simp
next
  case (Cons lr rows)
  obtain l r where lr: "lr = (l, r)" by (cases lr)
  from Cons.prems lr have l_pre: "l \<notin> fst ` set pre" and l_rows: "l \<notin> fst ` set rows"
    by auto
  show ?case
  proof (cases "leak_affected G leak s e r")
    case True
    let ?r' = "leak_scaled sev (uniform g p 0.8 1.2) r"
    have r': "r\<lparr>row_value := row_value ?r'\<rparr> = ?r'"
      by (simp add: leak_scaled_def)
    have set: "loc_set_value (pre @ (l, r) # rows) l (row_value ?r') = (pre @ [(l, ?r')]) @ rows"
      using l_pre l_rows r'
      by (simp add: loc_set_value_append loc_set_value_Cons loc_set_value_absent)
    have d: "distinct (map fst ((pre @ [(l, ?r')]) @ rows))"
      using Cons.prems lr by simp
    show ?thesis
      using Cons.IH[OF d, of "Suc p"] True set
      by (simp add: lr leak_step_affected[OF anc])
  next
    case False
    have d: "distinct (map fst ((pre @ [(l, r)]) @ rows))"
      using Cons.prems lr by simp
    show ?thesis
      using Cons.IH[OF d, of p] False
      by (simp add: lr leak_step_affected[OF anc])
  qed
qed

lemma length_leak_table [simp]: "length (leak_table a sev g p rows) = length rows"
  by (induction a sev g p rows rule: leak_table.induct) auto

lemma leak_table_nth:
  "i < length rows \<Longrightarrow>
   leak_table a sev g p rows ! i =
     (if a (snd (rows ! i))
      then (fst (rows ! i),
            leak_scaled sev (uniform g (p + length (filter a (map snd (take i rows)))) 0.8 1.2)
              (snd (rows ! i)))
      else rows ! i)"
proof (induction a sev g p rows arbitrary: i rule: leak_table.induct)
  case (1 a sev g p)
  then show ?case by simp
next
  case (2 a sev g p l r rest)
  show ?case
  proof (cases i)
    case 0
    then show ?thesis by simp
  next
    case (Suc j)
    with 2 show ?thesis by (cases "a r") auto
  qed
qed

lemma inject_leak_event_returns:
  assumes "leak \<in> set (node_ids G)"
  shows "\<exists>df' p'. inject_leak_event sensor_df G leak s e sev g p = Inr (df', p')"
  using assms by (simp add: inject_leak_event_def ancestors_def split_beta)

section \<open>Boundary grids\<close>

text \<open>
  Claim C7. With a positive sampling interval, a call with \<open>start == end\<close> has the grid of
  exactly one timestamp, the start: each generator makes one pass over its nodes at that
  timestamp, and a table it returns has exactly one row per Sensor node (respectively
  per ConsumptionZone node), in node order, each with the timestamp \<open>start\<close>. A call with
  \<open>start > end\<close> has the empty grid, and both generators return the empty table without
  drawing from the random source.
\<close>

theorem boundary_grids:
  assumes "0 < k"
  shows "date_range s s k = Inr [s] \<and>
         generate_sensor_data G s s k g p =
           (case for_each (sensor_step G g s) (sensor_nodes G)
                   \<lparr>rng_pos = p, base_pressure = None, data = []\<rparr> of
              Inl err \<Rightarrow> Inl err
            | Inr st \<Rightarrow> Inr (DataFrame (data st), rng_pos st)) \<and>
         (generate_sensor_data G s s k g p = Inr (df, p') \<longrightarrow>
            map (\<lambda>lr. (row_timestamp (snd lr), row_sensor_id (snd lr))) df
              = map (Pair s) (sensor_nodes G)) \<and>
         generate_consumption_data G s s k g p =
           (case for_each (zone_step G g s) (consumption_zones G) (p, []) of
              Inl err \<Rightarrow> Inl err
            | Inr st \<Rightarrow> Inr (DataFrame (snd st), fst st)) \<and>
         (generate_consumption_data G s s k g p = Inr (cdf, q') \<longrightarrow>
            map (\<lambda>lr. (crow_timestamp (snd lr), crow_zone_id (snd lr))) cdf
              = map (Pair s) (consumption_zones G)) \<and>
         (e < s \<longrightarrow> date_range s e k = Inr [] \<and>
                   generate_sensor_data G s e k g p = Inr ([], p) \<and>
                   generate_consumption_data G s e k g p = Inr ([], p))"
proof -
  have grid: "date_range s s k = Inr [s]"
    using assms by (rule date_range_same)
  have sensor: "generate_sensor_data G s s k g p =
           (case for_each (sensor_step G g s) (sensor_nodes G)
                   \<lparr>rng_pos = p, base_pressure = None, data = []\<rparr> of
              Inl err \<Rightarrow> Inl err
            | Inr st \<Rightarrow> Inr (DataFrame (data st), rng_pos st))"
    by (simp add: generate_sensor_data_def grid split: sum.splits)
  have zones: "generate_consumption_data G s s k g p =
           (case for_each (zone_step G g s) (consumption_zones G) (p, []) of
              Inl err \<Rightarrow> Inl err
            | Inr st \<Rightarrow> Inr (DataFrame (snd st), fst st))"
    by (simp add: generate_consumption_data_def grid split: sum.splits)
  have sensor_keys: "map (\<lambda>lr. (row_timestamp (snd lr), row_sensor_id (snd lr))) df
              = map (Pair s) (sensor_nodes G)"
    if "generate_sensor_data G s s k g p = Inr (df, p')"
    using sensor_table_keys[OF that grid] by simp
  have zone_keys: "map (\<lambda>lr. (crow_timestamp (snd lr), crow_zone_id (snd lr))) cdf
              = map (Pair s) (consumption_zones G)"
    if "generate_consumption_data G s s k g p = Inr (cdf, q')"
    using consumption_table_keys[OF that grid] by simp
  have empty: "date_range s e k = Inr [] \<and>
                   generate_sensor_data G s e k g p = Inr ([], p) \<and>
                   generate_consumption_data G s e k g p = Inr ([], p)"
    if "e < s"
    using assms that
    by (simp add: date_range_empty generate_sensor_data_def generate_consumption_data_def)
  from grid sensor zones sensor_keys zone_keys empty show ?thesis
    by blast
qed

theorem boundary_grids_witness:
  "(0 :: int) < 5 \<and> (0 :: int) < example_start \<and>
   date_range example_start example_start 5 = Inr [example_start] \<and>
   generate_sensor_data example_network example_start example_start 5 (\<lambda>_. 0) 0
     = Inr (example_table, 4) \<and>
   map (\<lambda>lr. (row_timestamp (snd lr), row_sensor_id (snd lr))) example_table
     = map (Pair example_start) (sensor_nodes example_network) \<and>
   map (\<lambda>lr. (row_timestamp (snd lr), row_sensor_id (snd lr))) example_table
     = [(example_start, ''S_F_J1''), (example_start, ''S_P_J1''), (example_start, ''S_L_R1'')] \<and>
   generate_consumption_data example_network example_start example_start 5 (\<lambda>_. 0) 0
     = Inr (example_consumption, 1) \<and>
   map (\<lambda>lr. (crow_timestamp (snd lr), crow_zone_id (snd lr))) example_consumption
     = map (Pair example_start) (consumption_zones example_network) \<and>
   map (\<lambda>lr. (crow_timestamp (snd lr), crow_zone_id (snd lr))) example_consumption
     = [(example_start, ''Z1'')] \<and>
   date_range example_start 0 5 = Inr [] \<and>
   generate_sensor_data example_network example_start 0 5 (\<lambda>_. 0) 0 = Inr ([], 0) \<and>
   generate_consumption_data example_network example_start 0 5 (\<lambda>_. 0) 0 = Inr ([], 0)"
proof -
  have k: "(0 :: int) < 5" by simp
  have later: "(0 :: int) < example_start"
    by (simp add: example_start_def ns_per_day_def)
  note b = boundary_grids[OF k, of example_start example_network "\<lambda>_. 0" 0 example_table 4
      example_consumption 1 0]
  from b example_sensor_table example_consumption_table later k show ?thesis
    by (simp add: example_sensor_nodes example_zones example_table_def example_consumption_def)
qed

section \<open>Row counts\<close>



section \<open>Level readings\<close>

text \<open>
  Claim C10. Level synthesis is keyed to the node identifier \<open>'R1'\<close>: in a returned table
  every Level row whose \<open>attached_to\<close> is not \<open>'R1'\<close> has the value 0, whatever the type of
  that node, and every Level row attached to \<open>'R1'\<close> has the value of the level formula
  with \<open>current_level\<close> and \<open>capacity\<close> read from the node \<open>'R1'\<close>.
\<close>

theorem level_keyed_to_R1:
  assumes "generate_sensor_data G s e k g p = Inr (df, p')"
      and "(l, r) \<in> set df"
      and "row_sensor_type r = ''Level''"
  shows "(row_attached_to r \<noteq> ''R1'' \<longrightarrow> row_value r = 0) \<and>
         (row_attached_to r = ''R1'' \<longrightarrow>
            (\<exists>a lvl cap q. node_lookup G ''R1'' = Inr a \<and> current_level a = Some lvl \<and>
               capacity a = Some cap \<and>
               row_value r =
                 max 0 (min cap (lvl + sin (real_of_int (dayofyear (row_timestamp r)) / 365
                                              * 2 * pi) * 50000
                                     + normal g q 0 10000))))"
proof -
  from sensor_table_row[OF assms(1,2)] assms(3) obtain q bp q' bp' where
    v: "sensor_value G g (row_timestamp r) ''Level'' (row_attached_to r) q bp
          = Inr (row_value r, q', bp')"
    by auto
  show ?thesis
  proof (intro conjI impI)
    assume "row_attached_to r \<noteq> ''R1''"
    with v show "row_value r = 0" by (simp add: sensor_value_def)
  next
    assume "row_attached_to r = ''R1''"
    with v have "level_value G g q (row_timestamp r) = Inr (row_value r)"
      by (auto simp: sensor_value_def split: sum.splits)
    from level_value_Inr[OF this]
    show "\<exists>a lvl cap q. node_lookup G ''R1'' = Inr a \<and> current_level a = Some lvl \<and>
               capacity a = Some cap \<and>
               row_value r =
                 max 0 (min cap (lvl + sin (real_of_int (dayofyear (row_timestamp r)) / 365
                                              * 2 * pi) * 50000
                                     + normal g q 0 10000))"
      by blast
  qed
qed

theorem level_keyed_to_R1_witness:
  "generate_sensor_data second_reservoir_network example_start example_start 5 (\<lambda>_. 0) 0 =
     Inr ([(0, \<lparr>row_timestamp = example_start, row_sensor_id = ''S_L_R2'',
                 row_attached_to = ''R2'', row_sensor_type = ''Level'', row_value = 0\<rparr>)], 0) \<and>
   node_lookup second_reservoir_network ''R2'' =
     Inr (no_attrs\<lparr>node_type := Some ''Reservoir'', capacity := Some 500000,
                    current_level := Some 400000\<rparr>) \<and>
   ''R2'' \<noteq> ''R1'' \<and>
   generate_sensor_data example_network example_start example_start 5 (\<lambda>_. 0) 0
     = Inr (example_table, 4) \<and>
   (2, \<lparr>row_timestamp = example_start, row_sensor_id = ''S_L_R1'',
         row_attached_to = ''R1'', row_sensor_type = ''Level'', row_value = 900000\<rparr>)
     \<in> set example_table \<and>
   (\<exists>a lvl cap q. node_lookup example_network ''R1'' = Inr a \<and> current_level a = Some lvl \<and>
      capacity a = Some cap \<and>
      (900000 :: real) =
        max 0 (min cap (lvl + sin (real_of_int (dayofyear example_start) / 365 * 2 * pi) * 50000
                            + normal (\<lambda>_. 0) q 0 10000)))"
  using level_keyed_to_R1[OF second_reservoir_table, of 0
      "\<lparr>row_timestamp = example_start, row_sensor_id = ''S_L_R2'',
        row_attached_to = ''R2'', row_sensor_type = ''Level'', row_value = 0\<rparr>"]
    level_keyed_to_R1[OF example_sensor_table, of 2
      "\<lparr>row_timestamp = example_start, row_sensor_id = ''S_L_R1'',
         row_attached_to = ''R1'', row_sensor_type = ''Level'', row_value = 900000\<rparr>"]
    second_reservoir_table example_sensor_table
  by (simp add: example_table_def node_lookup_def second_reservoir_network_def)

section \<open>Bounds of the generated values\<close>

text \<open>
  Claim C6. In a returned sensor table every value is non-negative, and every Level
  value lies within \<open>[0, capacity]\<close> for the capacity of the reservoir node \<open>'R1'\<close>: the
  formula clips with \<open>max(0, min(capacity, value))\<close>, so the value is at most
  \<open>max(0, capacity)\<close>, which is the capacity for every capacity a reservoir can have
  (one that is not negative). In a returned consumption table every value is
  non-negative.
\<close>

theorem values_within_bounds:
  shows "(generate_sensor_data G s e k g p = Inr (df, p') \<and> (l, r) \<in> set df \<longrightarrow>
            0 \<le> row_value r \<and>
            (row_sensor_type r = ''Level'' \<longrightarrow>
               row_value r \<le> max 0 (reservoir_capacity G) \<and>
               (0 \<le> reservoir_capacity G \<longrightarrow> row_value r \<le> reservoir_capacity G))) \<and>
         (generate_consumption_data G s e k g p = Inr (cdf, q') \<and> (l', c) \<in> set cdf \<longrightarrow>
            0 \<le> consumption_liters_per_sec c)"
proof (intro conjI impI)
  assume a: "generate_sensor_data G s e k g p = Inr (df, p') \<and> (l, r) \<in> set df"
  then obtain q bp q2 bp2 where
    v: "sensor_value G g (row_timestamp r) (row_sensor_type r) (row_attached_to r) q bp
             = Inr (row_value r, q2, bp2)"
    using sensor_table_row[of G s e k g p df p' l r] by blast
  from sensor_value_nonneg[OF v] show "0 \<le> row_value r" .
  {
    assume "row_sensor_type r = ''Level''"
    with v have b: "row_value r \<le> max 0 (reservoir_capacity G)"
      using sensor_value_level_bound[of G g "row_timestamp r" "row_attached_to r" q bp
          "row_value r" q2 bp2] by simp
    then show "row_value r \<le> max 0 (reservoir_capacity G)" .
    assume "0 \<le> reservoir_capacity G"
    with b show "row_value r \<le> reservoir_capacity G" by simp
  }
next
  assume "generate_consumption_data G s e k g p = Inr (cdf, q') \<and> (l', c) \<in> set cdf"
  then obtain x where "consumption_liters_per_sec c = max 0 x"
    using consumption_table_row[of G s e k g p cdf q' l' c] by blast
  then show "0 \<le> consumption_liters_per_sec c" by simp
qed

theorem values_within_bounds_witness:
  "generate_sensor_data example_network example_start example_start 5 (\<lambda>_. 0) 0
     = Inr (example_table, 4) \<and>
   (2, \<lparr>row_timestamp = example_start, row_sensor_id = ''S_L_R1'',
         row_attached_to = ''R1'', row_sensor_type = ''Level'', row_value = 900000\<rparr>)
     \<in> set example_table \<and>
   0 \<le> reservoir_capacity example_network \<and>
   (0 :: real) \<le> 900000 \<and> 900000 \<le> reservoir_capacity example_network \<and>
   generate_consumption_data example_network example_start example_start 5 (\<lambda>_. 0) 0
     = Inr (example_consumption, 1) \<and>
   (0, \<lparr>crow_timestamp = example_start, crow_zone_id = ''Z1'',
         consumption_liters_per_sec = max 0 (50 * seasonal_factor 365)\<rparr>)
     \<in> set example_consumption \<and>
   0 \<le> max 0 (50 * seasonal_factor 365)"
  using values_within_bounds[of example_network example_start example_start 5 "\<lambda>_. 0" 0
      example_table 4 2
      "\<lparr>row_timestamp = example_start, row_sensor_id = ''S_L_R1'',
        row_attached_to = ''R1'', row_sensor_type = ''Level'', row_value = 900000\<rparr>"
      example_consumption 1 0
      "\<lparr>crow_timestamp = example_start, crow_zone_id = ''Z1'',
        consumption_liters_per_sec = max 0 (50 * seasonal_factor 365)\<rparr>"]
    example_sensor_table example_consumption_table example_capacity
  by (simp add: example_table_def example_consumption_def)

section \<open>Sensor and attachment combinations that no branch handles\<close>

text \<open>
  Claim C3 says that a combination that no branch handles yields the value 0.0 and never
  raises. For a Pressure sensor on a Valve the code does neither: \<open>base_pressure\<close> is not
  assigned, so the first such reading raises \<open>UnboundLocalError\<close>, and after a handled
  Pressure reading the value left in \<open>base_pressure\<close> is used again.
\<close>

theorem pressure_on_valve:
  "generate_sensor_data valve_network example_start example_start 5 (\<lambda>_. 0) 0
     = Inl (UnboundLocalError ''base_pressure'') \<and>
   generate_sensor_data junction_valve_network example_start example_start 5 (\<lambda>_. 0) 0
     = Inr ([(0, \<lparr>row_timestamp = example_start, row_sensor_id = ''S_P_J1'',
                   row_attached_to = ''J1'', row_sensor_type = ''Pressure'',
                   row_value = 500000\<rparr>),
             (1, \<lparr>row_timestamp = example_start, row_sensor_id = ''S_P_V1'',
                   row_attached_to = ''V1'', row_sensor_type = ''Pressure'',
                   row_value = 500000\<rparr>)], 2)"
  by (simp add: generate_sensor_data_def example_grid1 sensor_nodes_def valve_network_def
      junction_valve_network_def sensor_step_def node_lookup_def attr_def sensor_node_def
      plain_node_def no_attrs_def sensor_value_def pressure_base_def normal_def DataFrame_def)

section \<open>Base flow of a Flow sensor\<close>

text \<open>
  Claim C4, as stated, fails in its "exactly when": the default 150 is taken whenever
  \<open>downstream_demand > 0\<close> is false, also for a junction that has a successor zone whose
  \<open>base_demand\<close> is 0. The flow reading is then 150 times the night factor 0.6.
\<close>

theorem default_flow_with_successor_zone:
  "zone_successors idle_zone_network ''J1'' = [''Z1''] \<and>
   flow_base idle_zone_network ''J1'' = Inr 150 \<and>
   generate_sensor_data idle_zone_network example_start example_start 5 (\<lambda>_. 0) 0 =
     Inr ([(0, \<lparr>row_timestamp = example_start, row_sensor_id = ''S_F_J1'',
                 row_attached_to = ''J1'', row_sensor_type = ''Flow'', row_value = 90\<rparr>)], 2)"
  using idle_zone_successors idle_zone_flow_base idle_zone_table by simp

text \<open>
  Claim C4, amended. For a Flow row of a returned table, the value is
  \<open>max(0, base_flow * pattern_factor + noise)\<close> where, for a sensor attached to a Junction,
  \<open>base_flow\<close> is the sum of \<open>base_demand\<close> over the junction's immediate successor
  ConsumptionZone nodes when that sum is positive and 150 otherwise (so also when there
  is no such successor); for a sensor attached to a node that is neither a
  ConsumptionZone nor a Junction, \<open>base_flow\<close> is the node's \<open>pump_rate\<close>, 0 when absent.
  In a well-formed graph the successors are pairwise distinct, so the sum over the list
  of successor zones is the sum over their set (\<open>zone_demand_sum\<close>).
\<close>

theorem flow_base_rule:
  assumes "generate_sensor_data G s e k g p = Inr (df, p')"
      and "(l, r) \<in> set df"
      and "row_sensor_type r = ''Flow''"
      and "node_lookup G (row_attached_to r) = Inr a"
      and "node_type a = Some ty"
  shows "\<exists>b q. flow_base G (row_attached_to r) = Inr b \<and>
           row_value r = max 0 (b * pattern_factor g q (hour (row_timestamp r))
                                + normal g (Suc q) 0 5) \<and>
           (ty = ''Junction'' \<longrightarrow>
              b = (if 0 < sum_list (map (demand_of G) (zone_successors G (row_attached_to r)))
                   then sum_list (map (demand_of G) (zone_successors G (row_attached_to r)))
                   else 150)) \<and>
           (ty \<noteq> ''ConsumptionZone'' \<and> ty \<noteq> ''Junction'' \<longrightarrow>
              b = (case pump_rate a of None \<Rightarrow> 0 | Some x \<Rightarrow> x))"
proof -
  from sensor_table_row[OF assms(1,2)] assms(3) obtain q bp q' bp' where
    v: "sensor_value G g (row_timestamp r) ''Flow'' (row_attached_to r) q bp
          = Inr (row_value r, q', bp')"
    by auto
  then obtain b where b: "flow_base G (row_attached_to r) = Inr b"
    and val: "row_value r = max 0 (b * pattern_factor g q (hour (row_timestamp r))
                                + normal g (Suc q) 0 5)"
    by (auto simp: sensor_value_def split: sum.splits)
  from flow_base_cases[OF assms(4,5) b] b val show ?thesis
    by blast
qed

theorem flow_base_rule_witness:
  "generate_sensor_data example_network example_start example_start 5 (\<lambda>_. 0) 0
     = Inr (example_table, 4) \<and>
   (0, \<lparr>row_timestamp = example_start, row_sensor_id = ''S_F_J1'',
         row_attached_to = ''J1'', row_sensor_type = ''Flow'', row_value = 60\<rparr>)
     \<in> set example_table \<and>
   node_lookup example_network ''J1'' = Inr (plain_node ''Junction'') \<and>
   node_type (plain_node ''Junction'') = Some ''Junction'' \<and>
   (\<exists>b q. flow_base example_network ''J1'' = Inr b \<and>
      60 = max 0 (b * pattern_factor (\<lambda>_. 0) q (hour example_start)
                  + normal (\<lambda>_. 0) (Suc q) 0 5) \<and>
      b = (if 0 < sum_list (map (demand_of example_network)
                              (zone_successors example_network ''J1''))
           then sum_list (map (demand_of example_network)
                              (zone_successors example_network ''J1''))
           else 150)) \<and>
   generate_sensor_data pump_network example_start example_start 5 (\<lambda>_. 0) 0 =
     Inr ([(0, \<lparr>row_timestamp = example_start, row_sensor_id = ''S_F_P1'',
                 row_attached_to = ''P1'', row_sensor_type = ''Flow'', row_value = 300\<rparr>)], 2) \<and>
   node_lookup pump_network ''P1'' =
     Inr (no_attrs\<lparr>node_type := Some ''PumpStation'', pump_rate := Some 500\<rparr>) \<and>
   ''PumpStation'' \<noteq> ''ConsumptionZone'' \<and> ''PumpStation'' \<noteq> ''Junction'' \<and>
   (\<exists>b q. flow_base pump_network ''P1'' = Inr b \<and>
      300 = max 0 (b * pattern_factor (\<lambda>_. 0) q (hour example_start)
                   + normal (\<lambda>_. 0) (Suc q) 0 5) \<and>
      b = 500)"
  using flow_base_rule[OF example_sensor_table, of 0
      "\<lparr>row_timestamp = example_start, row_sensor_id = ''S_F_J1'',
        row_attached_to = ''J1'', row_sensor_type = ''Flow'', row_value = 60\<rparr>"
      "plain_node ''Junction''" "''Junction''"]
    flow_base_rule[OF pump_table, of 0
      "\<lparr>row_timestamp = example_start, row_sensor_id = ''S_F_P1'',
        row_attached_to = ''P1'', row_sensor_type = ''Flow'', row_value = 300\<rparr>"
      "no_attrs\<lparr>node_type := Some ''PumpStation'', pump_rate := Some 500\<rparr>"
      "''PumpStation''"]
    example_sensor_table pump_table example_lookup(2)
  by (simp add: example_table_def plain_node_def no_attrs_def node_lookup_def pump_network_def)

section \<open>The consumption rule\<close>

text \<open>
  Claim C8. In a returned consumption table, row \<open>j\<close> belongs to a grid timestamp and a
  zone with attributes \<open>base_demand\<close> and \<open>demand_profile\<close>; for the profiles residential,
  commercial and industrial its value is \<open>base_demand\<close> times the factor of the profile's
  hour bucket, times the weekend multiplier, times the seasonal factor
  \<open>1 + 0.2 sin(2 pi (day_of_year - 170) / 365)\<close>, plus Gaussian noise of standard deviation 2
  (the draw at position \<open>p + j\<close>), floored at 0.
\<close>

theorem consumption_formula:
  assumes "generate_consumption_data G s e k g p = Inr (df, p')"
      and "j < length df"
  shows "\<exists>a bd profile.
           node_lookup G (crow_zone_id (snd (df ! j))) = Inr a \<and>
           base_demand a = Some bd \<and> demand_profile a = Some profile \<and>
           (profile \<in> {''residential'', ''commercial'', ''industrial''} \<longrightarrow>
              (\<exists>f. spec_bucket_factor (spec_buckets profile)
                      (hour (crow_timestamp (snd (df ! j)))) = Some f \<and>
                   consumption_liters_per_sec (snd (df ! j)) =
                     max 0 (bd * f
                              * spec_weekend_multiplier profile
                                  (weekday (crow_timestamp (snd (df ! j))))
                              * spec_seasonal (dayofyear (crow_timestamp (snd (df ! j))))
                            + normal g (p + j) 0 2)))"
proof -
  from consumption_rows[OF assms(1)] obtain grid rows where
    df: "df = DataFrame rows" and
    rows: "\<forall>j < length rows.
              \<exists>a bd profile.
                node_lookup G (snd (List.product grid (consumption_zones G) ! j)) = Inr a \<and>
                base_demand a = Some bd \<and> demand_profile a = Some profile \<and>
                rows ! j =
                  \<lparr>crow_timestamp = fst (List.product grid (consumption_zones G) ! j),
                   crow_zone_id = snd (List.product grid (consumption_zones G) ! j),
                   consumption_liters_per_sec =
                     max 0 (bd * weekend_adjust profile
                                   (weekday (fst (List.product grid (consumption_zones G) ! j)))
                                   (daily_factor profile
                                      (hour (fst (List.product grid (consumption_zones G) ! j))))
                               * seasonal_factor
                                   (dayofyear (fst (List.product grid (consumption_zones G) ! j)))
                            + normal g (p + j) 0 2)\<rparr>"
    by blast
  from assms(2) df have j: "j < length rows" by simp
  let ?t = "fst (List.product grid (consumption_zones G) ! j)"
  let ?z = "snd (List.product grid (consumption_zones G) ! j)"
  from rows j obtain a bd profile where
    a: "node_lookup G ?z = Inr a" "base_demand a = Some bd" "demand_profile a = Some profile"
    and row: "rows ! j = \<lparr>crow_timestamp = ?t, crow_zone_id = ?z,
                   consumption_liters_per_sec =
                     max 0 (bd * weekend_adjust profile (weekday ?t)
                                   (daily_factor profile (hour ?t))
                               * seasonal_factor (dayofyear ?t)
                            + normal g (p + j) 0 2)\<rparr>"
    by blast
  have snd: "snd (df ! j) = rows ! j" using df j by simp
  have t: "crow_timestamp (snd (df ! j)) = ?t" and z: "crow_zone_id (snd (df ! j)) = ?z"
    and v: "consumption_liters_per_sec (snd (df ! j)) =
              max 0 (bd * weekend_adjust profile (weekday ?t) (daily_factor profile (hour ?t))
                        * seasonal_factor (dayofyear ?t) + normal g (p + j) 0 2)"
    unfolding snd row by simp_all
  have v': "consumption_liters_per_sec (snd (df ! j)) =
              max 0 (bd * daily_factor profile (hour ?t)
                        * spec_weekend_multiplier profile (weekday ?t)
                        * spec_seasonal (dayofyear ?t) + normal g (p + j) 0 2)"
    unfolding v using weekday_range[of ?t]
    by (simp add: weekend_adjust_spec seasonal_factor_spec mult.assoc)
  show ?thesis
  proof (rule exI[of _ a], rule exI[of _ bd], rule exI[of _ profile], intro conjI impI)
    show "node_lookup G (crow_zone_id (snd (df ! j))) = Inr a" using a z by simp
    show "base_demand a = Some bd" by (rule a)
    show "demand_profile a = Some profile" by (rule a)
    assume "profile \<in> {''residential'', ''commercial'', ''industrial''}"
    with hour_range[of ?t]
    have "spec_bucket_factor (spec_buckets profile) (hour ?t)
            = Some (daily_factor profile (hour ?t))"
      by (simp add: daily_factor_spec)
    with v' t
    show "\<exists>f. spec_bucket_factor (spec_buckets profile)
                      (hour (crow_timestamp (snd (df ! j)))) = Some f \<and>
                   consumption_liters_per_sec (snd (df ! j)) =
                     max 0 (bd * f
                              * spec_weekend_multiplier profile
                                  (weekday (crow_timestamp (snd (df ! j))))
                              * spec_seasonal (dayofyear (crow_timestamp (snd (df ! j))))
                            + normal g (p + j) 0 2)"
      by simp
  qed
qed

theorem consumption_formula_witness:
  "generate_consumption_data example_network example_start example_start 5 (\<lambda>_. 0) 0
     = Inr (example_consumption, 1) \<and>
   (0 :: nat) < length example_consumption \<and>
   node_lookup example_network ''Z1'' = Inr (zone_node ''residential'' 100) \<and>
   ''residential'' \<in> {''residential'', ''commercial'', ''industrial''} \<and>
   spec_bucket_factor (spec_buckets ''residential'') (hour example_start) = Some 0.5 \<and>
   consumption_liters_per_sec (snd (example_consumption ! 0)) =
     max 0 (100 * 0.5 * spec_weekend_multiplier ''residential'' (weekday example_start)
              * spec_seasonal (dayofyear example_start)
            + normal (\<lambda>_. 0) (0 + 0) 0 2)"
proof -
  have len: "(0 :: nat) < length example_consumption"
    by (simp add: example_consumption_def)
  have z: "crow_zone_id (snd (example_consumption ! 0)) = ''Z1''"
    and t: "crow_timestamp (snd (example_consumption ! 0)) = example_start"
    by (simp_all add: example_consumption_def)
  from consumption_formula[OF example_consumption_table len] obtain a bd profile where
    a: "node_lookup example_network ''Z1'' = Inr a" and
    bd: "base_demand a = Some bd" and profile: "demand_profile a = Some profile" and
    rule: "profile \<in> {''residential'', ''commercial'', ''industrial''} \<longrightarrow>
            (\<exists>f. spec_bucket_factor (spec_buckets profile) (hour example_start) = Some f \<and>
                 consumption_liters_per_sec (snd (example_consumption ! 0)) =
                   max 0 (bd * f * spec_weekend_multiplier profile (weekday example_start)
                            * spec_seasonal (dayofyear example_start)
                          + normal (\<lambda>_. 0) (0 + 0) 0 2))"
    unfolding z t by blast
  from a example_lookup(3) have "a = zone_node ''residential'' 100" by simp
  with bd profile have "bd = 100" "profile = ''residential''"
    by (simp_all add: zone_node_def no_attrs_def)
  with rule obtain f where
    fb: "spec_bucket_factor (spec_buckets ''residential'') (hour example_start) = Some f" and
    fv: "consumption_liters_per_sec (snd (example_consumption ! 0)) =
       max 0 (100 * f * spec_weekend_multiplier ''residential'' (weekday example_start)
                * spec_seasonal (dayofyear example_start)
              + normal (\<lambda>_. 0) (0 + 0) 0 2)"
    by auto
  from fb example_bucket have f: "f = 0.5" by simp
  have "consumption_liters_per_sec (snd (example_consumption ! 0)) =
       max 0 (100 * 0.5 * spec_weekend_multiplier ''residential'' (weekday example_start)
                * spec_seasonal (dayofyear example_start)
              + normal (\<lambda>_. 0) (0 + 0) 0 2)"
    using fv unfolding f .
  with example_consumption_table len example_lookup(3) example_bucket show ?thesis
    by simp
qed

section \<open>Repeated generation\<close>

text \<open>
  Claim C9. Two calls with identical network, start, end and interval give identical
  results when the pseudo-random source is in an identical state, that is at the same
  position of streams that agree from that position on; and with every raw sample
  replaced by zero they give identical tables (or raise the same error) from any two
  positions of the source.
\<close>

theorem generation_deterministic:
  assumes "\<forall>n\<ge>p. g n = g' n"
  shows "generate_sensor_data G s e k g p = generate_sensor_data G s e k g' p \<and>
         generate_consumption_data G s e k g p = generate_consumption_data G s e k g' p \<and>
         map_sum id fst (generate_sensor_data G s e k (\<lambda>_. 0) p)
           = map_sum id fst (generate_sensor_data G s e k (\<lambda>_. 0) p2) \<and>
         map_sum id fst (generate_consumption_data G s e k (\<lambda>_. 0) p)
           = map_sum id fst (generate_consumption_data G s e k (\<lambda>_. 0) p2)"
  using sensor_data_same_draws[OF assms] consumption_data_same_draws[OF assms]
    sensor_data_zero consumption_data_zero
  by blast

theorem generation_deterministic_witness:
  "generate_sensor_data example_network example_start example_start 5 (\<lambda>_. 0) 3
     = generate_sensor_data example_network example_start example_start 5
         (\<lambda>n. if n < 3 then 1 else 0) 3 \<and>
   generate_consumption_data example_network example_start example_start 5 (\<lambda>_. 0) 3
     = generate_consumption_data example_network example_start example_start 5
         (\<lambda>n. if n < 3 then 1 else 0) 3 \<and>
   map_sum id fst (generate_sensor_data example_network example_start example_start 5
                     (\<lambda>_. 0) 3)
     = map_sum id fst (generate_sensor_data example_network example_start example_start 5
                         (\<lambda>_. 0) 0) \<and>
   map_sum id fst (generate_consumption_data example_network example_start example_start 5
                     (\<lambda>_. 0) 3)
     = map_sum id fst (generate_consumption_data example_network example_start example_start 5
                         (\<lambda>_. 0) 0)"
proof -
  have h: "\<forall>n\<ge>3. (\<lambda>_ :: nat. 0 :: real) n = (\<lambda>n :: nat. if n < 3 then 1 else 0) n"
    by simp
  from generation_deterministic[OF h, of example_network example_start example_start 5 0]
  show ?thesis by blast
qed

section \<open>Leak injection\<close>

text \<open>
  Claim C1. The injector is given an already generated sensor table; the index labels
  of such a table are \<open>0, 1, 2, ...\<close>, pairwise distinct (\<open>generated_labels_distinct\<close>).
  For a sensor table with pairwise distinct index labels, a call of
  \<open>inject_leak_event\<close> that returns gives a table of the same rows in which exactly the
  rows with timestamp in \<open>[start, end]\<close>, sensor type Flow or Pressure and \<open>attached_to\<close>
  the leak node or a node with a directed path to it are changed: a Flow value is
  multiplied by \<open>1 + severity * u\<close>, a Pressure value by \<open>1 - severity * u\<close>, where \<open>u\<close> is
  a draw of \<open>uniform(0.8, 1.2)\<close> of its own, the \<open>k\<close>-th changed row taking the \<open>k\<close>-th draw
  after the position \<open>p\<close> of the source; every other row is unchanged; and a draw lies
  in \<open>[0.8, 1.2)\<close> when the raw sample lies in \<open>[0, 1)\<close>. The call returns whenever the
  leak node is a node of the network (\<open>inject_leak_event_returns\<close>).
\<close>

theorem leak_injection_rows:
  assumes "distinct (map fst sensor_df)"
      and "inject_leak_event sensor_df G leak s e sev g p = Inr (df', p')"
  shows "length df' = length sensor_df \<and>
         p' = p + length (filter (leak_affected G leak s e) (map snd sensor_df)) \<and>
         (\<forall>i < length sensor_df.
            df' ! i =
              (if leak_affected G leak s e (snd (sensor_df ! i))
               then (fst (sensor_df ! i),
                     leak_scaled sev
                       (uniform g (p + length (filter (leak_affected G leak s e)
                                                 (map snd (take i sensor_df)))) 0.8 1.2)
                       (snd (sensor_df ! i)))
               else sensor_df ! i)) \<and>
         (\<forall>n. 0 \<le> g n \<and> g n < 1 \<longrightarrow>
               0.8 \<le> uniform g n 0.8 1.2 \<and> uniform g n 0.8 1.2 < 1.2)"
proof -
  from assms(2) obtain up where anc: "ancestors G leak = Inr up"
    and res: "fold (leak_step up leak s e sev g) sensor_df (sensor_df, p) = (df', p')"
    by (auto simp: inject_leak_event_def split: sum.splits)
  from leak_fold[OF anc, of "[]" sensor_df s e sev g p] assms(1) res
  have df': "df' = leak_table (leak_affected G leak s e) sev g p sensor_df"
    and p': "p' = p + length (filter (leak_affected G leak s e) (map snd sensor_df))"
    by simp_all
  have "0.8 \<le> uniform g n 0.8 1.2 \<and> uniform g n 0.8 1.2 < 1.2" if "0 \<le> g n \<and> g n < 1" for n
    using that by (simp add: uniform_def)
  then show ?thesis
    using p' by (simp add: df' leak_table_nth)
qed

theorem leak_injection_rows_witness:
  "distinct (map fst example_table) \<and>
   inject_leak_event example_table example_network ''J1'' example_start example_start
     (1 / 5) (\<lambda>_. 1 / 2) 0 =
   Inr ([(0, \<lparr>row_timestamp = example_start, row_sensor_id = ''S_F_J1'',
               row_attached_to = ''J1'', row_sensor_type = ''Flow'', row_value = 72\<rparr>),
         (1, \<lparr>row_timestamp = example_start, row_sensor_id = ''S_P_J1'',
               row_attached_to = ''J1'', row_sensor_type = ''Pressure'', row_value = 400000\<rparr>),
         (2, \<lparr>row_timestamp = example_start, row_sensor_id = ''S_L_R1'',
               row_attached_to = ''R1'', row_sensor_type = ''Level'', row_value = 900000\<rparr>)], 2) \<and>
   (2 :: nat) = 0 + length (filter (leak_affected example_network ''J1'' example_start
                                      example_start) (map snd example_table)) \<and>
   (1 :: nat, \<lparr>row_timestamp = example_start, row_sensor_id = ''S_P_J1'',
                row_attached_to = ''J1'', row_sensor_type = ''Pressure'', row_value = 400000\<rparr>)
     = (fst (example_table ! 1),
        leak_scaled (1 / 5)
          (uniform (\<lambda>_. 1 / 2)
             (0 + length (filter (leak_affected example_network ''J1'' example_start
                                    example_start) (map snd (take 1 example_table)))) 0.8 1.2)
          (snd (example_table ! 1))) \<and>
   (2 :: nat, \<lparr>row_timestamp = example_start, row_sensor_id = ''S_L_R1'',
                row_attached_to = ''R1'', row_sensor_type = ''Level'', row_value = 900000\<rparr>)
     = example_table ! 2 \<and>
   0.8 \<le> uniform (\<lambda>_. 1 / 2) 0 0.8 1.2 \<and> uniform (\<lambda>_. 1 / 2) 0 0.8 1.2 < 1.2"
proof -
  note labels = generated_labels_distinct[OF example_sensor_table]
  note rows = leak_injection_rows[OF labels example_leak]
  have len: "length example_table = 3" by (simp add: example_table_def)
  from rows have count: "(2 :: nat) = 0 + length (filter (leak_affected example_network ''J1''
                            example_start example_start) (map snd example_table))"
    by blast
  from rows len example_affected(2) have row1:
    "(1 :: nat, \<lparr>row_timestamp = example_start, row_sensor_id = ''S_P_J1'',
                row_attached_to = ''J1'', row_sensor_type = ''Pressure'', row_value = 400000\<rparr>)
     = (fst (example_table ! 1),
        leak_scaled (1 / 5)
          (uniform (\<lambda>_. 1 / 2)
             (0 + length (filter (leak_affected example_network ''J1'' example_start
                                    example_start) (map snd (take 1 example_table)))) 0.8 1.2)
          (snd (example_table ! 1)))"
    by (auto dest!: spec[of _ 1])
  from rows len example_affected(3) have row2:
    "(2 :: nat, \<lparr>row_timestamp = example_start, row_sensor_id = ''S_L_R1'',
                row_attached_to = ''R1'', row_sensor_type = ''Level'', row_value = 900000\<rparr>)
     = example_table ! 2"
    by (auto dest!: spec[of _ 2])
  from rows have "0.8 \<le> uniform (\<lambda>_. 1 / 2) 0 0.8 1.2 \<and> uniform (\<lambda>_. 1 / 2) 0 0.8 1.2 < 1.2"
    by simp
  with labels example_leak count row1 row2 show ?thesis
    by blast
qed

section \<open>A leak node that is not in the network\<close>

text \<open>
  Claim C2, as stated, fails: \<open>inject_leak_event\<close> makes no check of its own, but
  \<open>nx.ancestors\<close> raises \<open>NetworkXError\<close> for a source that is not a node of the graph, so
  the call raises instead of returning the table.
\<close>

theorem absent_leak_node_error:
  "''J9'' \<notin> set (node_ids example_network) \<and>
   inject_leak_event example_table example_network ''J9'' example_start example_start
     (1 / 5) (\<lambda>_. 1 / 2) 0 = Inl NetworkXError \<and>
   inject_leak_event example_table example_network ''J9'' example_start example_start
     (1 / 5) (\<lambda>_. 1 / 2) 0 \<noteq> Inr (example_table, 0)"
  using example_absent(1) by (simp add: inject_leak_event_def ancestors_def)

text \<open>
  Claim C2, amended. For every sensor table and every leak node id that is not a node
  of the network, \<open>inject_leak_event\<close> performs no validation of its own and the call
  raises \<open>NetworkXError\<close> out of the ancestor computation, before any row is read: no
  table is returned and none is modified.
\<close>

theorem absent_leak_node_raises:
  assumes "leak_node_id \<notin> set (node_ids G)"
  shows "inject_leak_event sensor_df G leak_node_id s e sev g p = Inl NetworkXError"
  using assms by (simp add: inject_leak_event_def ancestors_def)

theorem absent_leak_node_raises_witness:
  "''R1'' \<notin> set (node_ids second_reservoir_network) \<and>
   inject_leak_event example_table second_reservoir_network ''R1'' example_start example_end
     (3 / 10) (\<lambda>_. 0) 0 = Inl NetworkXError"
  using absent_leak_node_raises[OF example_absent(2), of example_table example_start
      example_end "3 / 10" "\<lambda>_. 0" 0] example_absent(2)
  by simp

end
